theory Spec2Isabelle
  imports Complex_Main "HOL-Library.AList" "HOL-Library.Char_ord"
    "HOL-Library.List_Lexorder"
begin

section \<open>Python and numpy values\<close>

text \<open>
  The module \<^verbatim>\<open>lsstseries/timeseries.py\<close> computes with numpy \<^verbatim>\<open>float64\<close> arrays.
  A \<^verbatim>\<open>float64\<close> is modelled here by an exact real number or one of the three special
  values \<open>PInf\<close>, \<open>NInf\<close> and \<open>NaN\<close>.  The special values follow IEEE 754, so that a
  division by zero is an infinity or a NaN and never an exception, as numpy has it.
  Arithmetic on finite values is exact: the model has no rounding, no overflow or
  underflow, and a single zero without a sign.

  The theorems stated below for the two methods and for the band aggregator use of this
  arithmetic only what \<^verbatim>\<open>float64\<close> arithmetic has as well: which call raises which
  exception, the order of the operations, the comparisons, the propagation of NaN and of
  infinities, \<open>x - x = 0\<close>, \<open>f * 0 = 0\<close>, \<open>0 / e = 0\<close> for \<open>e > 0\<close>, \<open>x / 1 = x\<close> and
  \<open>1 + 0 = 1\<close> for finite values, and the symmetry of products and quotients under a change
  of sign.  What a sum or a quotient of arbitrary finite values is, is not among these:
  \<^verbatim>\<open>float64\<close> rounds, overflows to an infinity, underflows to zero and has a negative
  zero, for which \<^verbatim>\<open>x / -0.0\<close> is \<^verbatim>\<open>-inf\<close> when \<open>x > 0\<close>.  The lemmas that compute such values
  exactly serve only to evaluate runs on inputs for which the \<^verbatim>\<open>float64\<close> operations
  involved are exact as well.  Python exceptions are values of type \<open>error\<close>.
\<close>

datatype error = ZeroDivisionError | TypeError | ValueError | KeyError

fun exc_name :: "error \<Rightarrow> string" where
  "exc_name ZeroDivisionError = ''ZeroDivisionError''"
| "exc_name TypeError = ''TypeError''"
| "exc_name ValueError = ''ValueError''"
| "exc_name KeyError = ''KeyError''"

definition bindE :: "error + 'a \<Rightarrow> ('a \<Rightarrow> error + 'b) \<Rightarrow> error + 'b" where
  "bindE r f = (case r of Inl e \<Rightarrow> Inl e | Inr x \<Rightarrow> f x)"

datatype float = Fin real | PInf | NInf | NaN

fun is_finite :: "float \<Rightarrow> bool" where
  "is_finite (Fin a) = True"
| "is_finite _ = False"

fun fsgn :: "float \<Rightarrow> real" where
  "fsgn (Fin a) = sgn a"
| "fsgn PInf = 1"
| "fsgn NInf = - 1"
| "fsgn NaN = 0"

definition inf_of_sign :: "real \<Rightarrow> float" where
  "inf_of_sign s = (if s > 0 then PInf else if s < 0 then NInf else NaN)"

fun fadd :: "float \<Rightarrow> float \<Rightarrow> float" where
  "fadd NaN y = NaN"
| "fadd x NaN = NaN"
| "fadd (Fin a) (Fin b) = Fin (a + b)"
| "fadd PInf NInf = NaN"
| "fadd NInf PInf = NaN"
| "fadd PInf y = PInf"
| "fadd x PInf = PInf"
| "fadd NInf y = NInf"
| "fadd x NInf = NInf"

fun fneg :: "float \<Rightarrow> float" where
  "fneg (Fin a) = Fin (- a)"
| "fneg PInf = NInf"
| "fneg NInf = PInf"
| "fneg NaN = NaN"

definition fsub :: "float \<Rightarrow> float \<Rightarrow> float" where
  "fsub x y = fadd x (fneg y)"

fun fmul :: "float \<Rightarrow> float \<Rightarrow> float" where
  "fmul NaN y = NaN"
| "fmul x NaN = NaN"
| "fmul (Fin a) (Fin b) = Fin (a * b)"
| "fmul x y = inf_of_sign (fsgn x * fsgn y)"

fun fdiv :: "float \<Rightarrow> float \<Rightarrow> float" where
  "fdiv NaN y = NaN"
| "fdiv x NaN = NaN"
| "fdiv (Fin a) (Fin b) = (if b = 0 then inf_of_sign (sgn a) else Fin (a / b))"
| "fdiv (Fin a) y = Fin 0"
| "fdiv x (Fin b) = inf_of_sign (fsgn x * (if b < 0 then - 1 else 1))"
| "fdiv x y = NaN"

fun flt :: "float \<Rightarrow> float \<Rightarrow> bool" where
  "flt NaN y = False"
| "flt x NaN = False"
| "flt (Fin a) (Fin b) = (a < b)"
| "flt PInf y = False"
| "flt x NInf = False"
| "flt x y = True"

definition feq :: "float \<Rightarrow> float \<Rightarrow> bool" where
  "feq x y = (x \<noteq> NaN \<and> y \<noteq> NaN \<and> x = y)"

fun np_fabs :: "float \<Rightarrow> float" where
  "np_fabs (Fin a) = Fin \<bar>a\<bar>"
| "np_fabs PInf = PInf"
| "np_fabs NInf = PInf"
| "np_fabs NaN = NaN"

fun np_sign :: "float \<Rightarrow> float" where
  "np_sign (Fin a) = Fin (sgn a)"
| "np_sign PInf = Fin 1"
| "np_sign NInf = Fin (- 1)"
| "np_sign NaN = NaN"

fun np_sqrt :: "float \<Rightarrow> float" where
  "np_sqrt (Fin a) = (if a < 0 then NaN else Fin (sqrt a))"
| "np_sqrt PInf = PInf"
| "np_sqrt NInf = NaN"
| "np_sqrt NaN = NaN"

definition is_integral :: "real \<Rightarrow> bool" where
  "is_integral b = (b = of_int \<lfloor>b\<rfloor>)"

fun fpow_inf :: "float \<Rightarrow> float \<Rightarrow> float" where
  "fpow_inf NaN y = NaN"
| "fpow_inf x NaN = NaN"
| "fpow_inf (Fin a) (Fin b) =
     (if a > 0 then Fin (a powr b)
      else if a = 0 then (if b > 0 then Fin 0 else PInf)
      else if is_integral b then Fin (a powi \<lfloor>b\<rfloor>) else NaN)"
| "fpow_inf (Fin a) PInf = (if \<bar>a\<bar> < 1 then Fin 0 else if \<bar>a\<bar> = 1 then Fin 1 else PInf)"
| "fpow_inf (Fin a) NInf = (if \<bar>a\<bar> < 1 then PInf else if \<bar>a\<bar> = 1 then Fin 1 else Fin 0)"
| "fpow_inf PInf (Fin b) = (if b > 0 then PInf else Fin 0)"
| "fpow_inf NInf (Fin b) =
     (if b > 0 then (if is_integral b \<and> odd \<lfloor>b\<rfloor> then NInf else PInf) else Fin 0)"
| "fpow_inf x PInf = PInf"
| "fpow_inf x NInf = Fin 0"

definition fpow :: "float \<Rightarrow> float \<Rightarrow> float" where
  "fpow x y = (if y = Fin 0 \<or> x = Fin 1 then Fin 1 else fpow_inf x y)"

instantiation float :: comm_monoid_add
begin

definition zero_float :: float where
  "zero_float = Fin 0"

definition plus_float :: "float \<Rightarrow> float \<Rightarrow> float" where
  "plus_float x y = fadd x y"

instance
proof
  fix a b c :: float
  show "a + b + c = a + (b + c)"
    unfolding plus_float_def by (cases a; cases b; cases c) simp_all
  show "a + b = b + a"
    unfolding plus_float_def by (cases a; cases b) simp_all
  show "0 + a = a"
    unfolding plus_float_def zero_float_def by (cases a) simp_all
qed

end

text \<open>
  \<^verbatim>\<open>n_points / (n_points - 1)\<close> divides two Python integers: a zero divisor raises
  \<^verbatim>\<open>ZeroDivisionError\<close>, otherwise the quotient is a float.
\<close>

definition py_truediv :: "int \<Rightarrow> int \<Rightarrow> error + float" where
  "py_truediv a b = (if b = 0 then Inl ZeroDivisionError else Inr (Fin (of_int a / of_int b)))"

text \<open>
  An arithmetic operator between two one-dimensional arrays works element by element;
  an array of length one is stretched to the length of the other, and any other pair of
  different lengths raises \<^verbatim>\<open>ValueError\<close>.
\<close>

definition broadcast2 ::
  "(float \<Rightarrow> float \<Rightarrow> float) \<Rightarrow> float list \<Rightarrow> float list \<Rightarrow> error + float list" where
  "broadcast2 f xs ys =
     (if length xs = length ys then Inr (map2 f xs ys)
      else if length ys = 1 then Inr (map (\<lambda>x. f x (hd ys)) xs)
      else if length xs = 1 then Inr (map (\<lambda>y. f (hd xs) y) ys)
      else Inl ValueError)"

text \<open>
  \<^verbatim>\<open>np.average(a, weights=wgt)\<close> without an axis raises \<^verbatim>\<open>TypeError\<close> when the shapes
  differ and \<^verbatim>\<open>ZeroDivisionError\<close> when the weights sum to zero (a NaN sum does not
  compare equal to zero); otherwise it is \<^verbatim>\<open>(a * wgt).sum() / wgt.sum()\<close>.
  \<^verbatim>\<open>np.mean\<close> of an array is its sum over its length.
\<close>

definition np_average :: "float list \<Rightarrow> float list \<Rightarrow> error + float" where
  "np_average a wgt =
     (if length a \<noteq> length wgt then Inl TypeError
      else let scl = sum_list wgt
           in if feq scl (Fin 0) then Inl ZeroDivisionError
              else Inr (fdiv (sum_list (map2 fmul a wgt)) scl))"

definition np_mean :: "float list \<Rightarrow> float" where
  "np_mean xs = fdiv (sum_list xs) (Fin (real (length xs)))"

section \<open>The Stetson mean and the Stetson J statistic\<close>

text \<open>
  The method \<^verbatim>\<open>_stetson_mean\<close>, lines 202 to 217 of the source:
  \<^verbatim>\<open>
    n_points = len(values)
    n_factor = np.sqrt(n_points / (n_points - 1))
    inv_var = 1 / errors ** 2
    if mean is None:
        mean = np.average(values, weights=inv_var)
    for iter_idx in range(n_iter):
        chi = np.fabs(n_factor * (values - mean) / errors)
        tmp_mean = np.average(values, weights=inv_var / (1 + (chi / alpha) ** beta))
        diff = np.fabs(tmp_mean - mean)
        mean = tmp_mean
        if diff / mean < tol and diff < tol:
            break
    return mean
  \<close>
  \<open>reweighted_mean\<close> is the computation of \<^verbatim>\<open>tmp_mean\<close> in one pass of the loop,
  \<open>converged\<close> the test that ends the loop, \<open>stetson_iter\<close> the loop with its remaining
  number of passes, and \<open>stetson_mean_passes\<close> the whole body; besides the mean it
  reports how many passes were made.  \<open>stetson_mean\<close> is the method itself.  The
  square \<^verbatim>\<open>errors ** 2\<close> is the product of each error with itself.
\<close>

definition reweighted_mean ::
  "float list \<Rightarrow> float list \<Rightarrow> float \<Rightarrow> float list \<Rightarrow> float \<Rightarrow> float \<Rightarrow> float
     \<Rightarrow> error + float" where
  "reweighted_mean values errors n_factor inv_var alpha beta mean =
     bindE (broadcast2 fdiv (map (\<lambda>v. fmul n_factor (fsub v mean)) values) errors) (\<lambda>q.
       let chi = map np_fabs q in
       bindE (broadcast2 fdiv inv_var
                (map (\<lambda>c. fadd (Fin 1) (fpow (fdiv c alpha) beta)) chi)) (\<lambda>w.
         np_average values w))"

definition converged :: "float \<Rightarrow> float \<Rightarrow> float \<Rightarrow> bool" where
  "converged diff mean tol = (flt (fdiv diff mean) tol \<and> flt diff tol)"

fun stetson_iter ::
  "nat \<Rightarrow> float list \<Rightarrow> float list \<Rightarrow> float \<Rightarrow> float list \<Rightarrow> float \<Rightarrow> float \<Rightarrow> float
     \<Rightarrow> float \<Rightarrow> error + float \<times> nat" where
  "stetson_iter 0 values errors n_factor inv_var alpha beta tol mean = Inr (mean, 0)"
| "stetson_iter (Suc k) values errors n_factor inv_var alpha beta tol mean =
     bindE (reweighted_mean values errors n_factor inv_var alpha beta mean) (\<lambda>tmp_mean.
       let diff = np_fabs (fsub tmp_mean mean) in
       if converged diff tmp_mean tol then Inr (tmp_mean, 1)
       else bindE (stetson_iter k values errors n_factor inv_var alpha beta tol tmp_mean)
              (\<lambda>(m, passes). Inr (m, Suc passes)))"

definition stetson_mean_passes ::
  "float list \<Rightarrow> float list \<Rightarrow> float option \<Rightarrow> float \<Rightarrow> float \<Rightarrow> int \<Rightarrow> float
     \<Rightarrow> error + float \<times> nat" where
  "stetson_mean_passes values errors mean alpha beta n_iter tol =
     (let n_points = int (length values) in
      bindE (py_truediv n_points (n_points - 1)) (\<lambda>q.
        let n_factor = np_sqrt q;
            inv_var = map (\<lambda>e. fdiv (Fin 1) (fmul e e)) errors
        in bindE (case mean of None \<Rightarrow> np_average values inv_var | Some m \<Rightarrow> Inr m) (\<lambda>mean0.
             stetson_iter (nat n_iter) values errors n_factor inv_var alpha beta tol mean0)))"

definition stetson_mean ::
  "float list \<Rightarrow> float list \<Rightarrow> float option \<Rightarrow> float \<Rightarrow> float \<Rightarrow> int \<Rightarrow> float
     \<Rightarrow> error + float" where
  "stetson_mean values errors mean alpha beta n_iter tol =
     map_sum id fst (stetson_mean_passes values errors mean alpha beta n_iter tol)"

text \<open>
  The method \<^verbatim>\<open>stetson_J\<close>, lines 142 to 150 of the source; the defaults of
  \<^verbatim>\<open>_stetson_mean\<close> are \<^verbatim>\<open>alpha=2., beta=2., n_iter=20, tol=1e-6\<close>:
  \<^verbatim>\<open>
    mean = None
    n_points = len(fluxes)
    flux_mean = self._stetson_mean(fluxes, errors, mean)
    delta_val = (
        np.sqrt(n_points / (n_points - 1)) * (fluxes - flux_mean) / errors)
    p_k = delta_val ** 2 - 1
    return np.mean(np.sign(p_k) * np.sqrt(np.fabs(p_k)))
  \<close>
\<close>

definition stetson_J :: "float list \<Rightarrow> float list \<Rightarrow> error + float" where
  "stetson_J fluxes errors =
     (let mean = None; n_points = int (length fluxes) in
      bindE (stetson_mean fluxes errors mean (Fin 2) (Fin 2) 20 (Fin (1 / 10 ^ 6))) (\<lambda>flux_mean.
        bindE (py_truediv n_points (n_points - 1)) (\<lambda>q.
          bindE (broadcast2 fdiv (map (\<lambda>f. fmul (np_sqrt q) (fsub f flux_mean)) fluxes) errors)
            (\<lambda>delta_val.
              let p_k = map (\<lambda>d. fsub (fmul d d) (Fin 1)) delta_val
              in Inr (np_mean (map (\<lambda>p. fmul (np_sign p) (np_sqrt (np_fabs p))) p_k))))))"

text \<open>
  The weight of one observation in a pass, and the contribution of one observation to
  Stetson J, as functions of the pair (value, error): the array expressions above taken
  at one index.  They are used in the proofs only.
\<close>

definition point_weight :: "float \<Rightarrow> float \<Rightarrow> float \<Rightarrow> float \<Rightarrow> float \<times> float \<Rightarrow> float" where
  "point_weight n_factor alpha beta mean z =
     (case z of (v, e) \<Rightarrow>
        fdiv (fdiv (Fin 1) (fmul e e))
          (fadd (Fin 1) (fpow (fdiv (np_fabs (fdiv (fmul n_factor (fsub v mean)) e)) alpha) beta)))"

definition point_J :: "float \<Rightarrow> float \<Rightarrow> float \<times> float \<Rightarrow> float" where
  "point_J n_factor flux_mean z =
     (case z of (f, e) \<Rightarrow>
        let d = fdiv (fmul n_factor (fsub f flux_mean)) e;
            p = fsub (fmul d d) (Fin 1)
        in fmul (np_sign p) (np_sqrt (np_fabs p)))"

section \<open>The timeseries object and the band aggregator\<close>

text \<open>
  The pandas data frame built by \<^verbatim>\<open>from_dict\<close> has one row per observation, indexed by
  the band label \<open>'b\<close> of the row, and named columns of equal length.  \<^verbatim>\<open>df[label]\<close> raises
  \<^verbatim>\<open>KeyError\<close> for a label that is no column (the label \<^verbatim>\<open>None\<close> included), and
  \<^verbatim>\<open>df.loc[band]\<close> keeps the rows of one band.  The attributes of the class are those set
  by \<^verbatim>\<open>__init__\<close>: \<^verbatim>\<open>data\<close>, \<^verbatim>\<open>meta\<close> and \<^verbatim>\<open>colmap\<close>, a dictionary from \<^verbatim>\<open>time\<close>, \<^verbatim>\<open>flux\<close> and
  \<^verbatim>\<open>flux_err\<close> to a column label or \<^verbatim>\<open>None\<close>.
\<close>

record 'b dataframe =
  index :: "'b list"
  columns :: "string \<rightharpoonup> float list"

record 'b timeseries =
  data :: "'b dataframe"
  meta :: "string \<rightharpoonup> string option"
  colmap :: "string \<rightharpoonup> string option"

definition df_getitem :: "'b dataframe \<Rightarrow> string option \<Rightarrow> error + float list" where
  "df_getitem df label =
     (case label of
        None \<Rightarrow> Inl KeyError
      | Some l \<Rightarrow> (case columns df l of None \<Rightarrow> Inl KeyError | Some xs \<Rightarrow> Inr xs))"

definition df_loc :: "'b dataframe \<Rightarrow> 'b \<Rightarrow> error + 'b dataframe" where
  "df_loc df b =
     (if b \<in> set (index df)
      then Inr \<lparr>index = filter (\<lambda>l. l = b) (index df),
                columns = (\<lambda>c. map_option
                  (\<lambda>xs. map snd (filter (\<lambda>r. fst r = b) (zip (index df) xs))) (columns df c))\<rparr>
      else Inl KeyError)"

definition dict_getitem :: "('k \<rightharpoonup> 'v) \<Rightarrow> 'k \<Rightarrow> error + 'v" where
  "dict_getitem d k = (case d k of None \<Rightarrow> Inl KeyError | Some v \<Rightarrow> Inr v)"

text \<open>
  The accessors, lines 80 to 96 of the source:
  \<^verbatim>\<open>
    def flux(self):      return self.data[self.colmap['flux']]
    def flux_err(self):
        if self.colmap['flux_err'] is not None:
            return self.data[self.colmap['flux_err']]
        else:
            return None
    def band(self):      return self.data.index.get_level_values('band')
  \<close>
\<close>

definition flux :: "'b timeseries \<Rightarrow> error + float list" where
  "flux self = bindE (dict_getitem (colmap self) ''flux'') (\<lambda>label. df_getitem (data self) label)"

definition flux_err :: "'b timeseries \<Rightarrow> error + float list option" where
  "flux_err self =
     bindE (dict_getitem (colmap self) ''flux_err'') (\<lambda>label.
       if label \<noteq> None
       then bindE (dict_getitem (colmap self) ''flux_err'') (\<lambda>label'.
              bindE (df_getitem (data self) label') (\<lambda>xs. Inr (Some xs)))
       else Inr None)"

definition band :: "'b timeseries \<Rightarrow> 'b list" where
  "band self = index (data self)"

text \<open>
  The method \<^verbatim>\<open>stetson_J_multi\<close>, lines 105 to 113 of the source; \<^verbatim>\<open>np.unique\<close> returns the
  distinct labels in ascending order, and the result dictionary keeps its keys in the
  order of insertion:
  \<^verbatim>\<open>
    unq_band = np.unique(self.band)
    result = {}
    for band in unq_band:
        fluxes = self.data.loc[band]['psFlux'].values
        errors = self.data.loc[band]['psFluxErr'].values
        result[band] = self.stetson_J(fluxes, errors)
    return result
  \<close>
\<close>

definition np_unique :: "'b::linorder list \<Rightarrow> 'b list" where
  "np_unique xs = sort (remdups xs)"

fun stetson_J_bands ::
  "'b dataframe \<Rightarrow> 'b list \<Rightarrow> ('b \<times> float) list \<Rightarrow> error + ('b \<times> float) list" where
  "stetson_J_bands df [] result = Inr result"
| "stetson_J_bands df (b # rest) result =
     bindE (df_loc df b) (\<lambda>sub.
       bindE (df_getitem sub (Some ''psFlux'')) (\<lambda>fluxes.
         bindE (df_loc df b) (\<lambda>sub'.
           bindE (df_getitem sub' (Some ''psFluxErr'')) (\<lambda>errors.
             bindE (stetson_J fluxes errors) (\<lambda>j.
               stetson_J_bands df rest (AList.update b j result))))))"

definition stetson_J_multi :: "'b::linorder timeseries \<Rightarrow> error + ('b \<times> float) list" where
  "stetson_J_multi self =
     (let unq_band = np_unique (band self) in stetson_J_bands (data self) unq_band [])"

definition band_rows :: "'b list \<Rightarrow> 'b \<Rightarrow> float list \<Rightarrow> float list" where
  "band_rows idx b xs = map snd (filter (\<lambda>r. fst r = b) (zip idx xs))"

definition example_series :: "string timeseries" where
  "example_series =
     \<lparr>data = \<lparr>index = [''g'', ''g'', ''r'', ''r''],
              columns = [''time'' \<mapsto> [Fin 1, Fin 2, Fin 3, Fin 4],
                         ''flux'' \<mapsto> [Fin 10, Fin 10, Fin 10, Fin 10],
                         ''flux_err'' \<mapsto> [Fin 1, Fin 1, Fin 1, Fin 1]]\<rparr>,
      meta = [''id'' \<mapsto> None],
      colmap = [''time'' \<mapsto> Some ''time'', ''flux'' \<mapsto> Some ''flux'',
                ''flux_err'' \<mapsto> Some ''flux_err'']\<rparr>"

section \<open>The same computation on a store of arrays\<close>

text \<open>
  To speak about what a call leaves behind, the two methods are modelled once more on an
  explicit store: numpy arrays live in a list of array objects and are passed by
  reference (their position in the list), every array expression of the source
  allocates a new array object for its result, and the object \<^verbatim>\<open>self\<close> with its
  attributes \<^verbatim>\<open>data\<close>, \<^verbatim>\<open>meta\<close> and \<^verbatim>\<open>colmap\<close> is part of the state.
\<close>

record 'b world =
  arrays :: "float list list"
  this :: "'b timeseries"

definition array_at :: "'b world \<Rightarrow> nat \<Rightarrow> float list" where
  "array_at w a = arrays w ! a"

definition new_array :: "float list \<Rightarrow> 'b world \<Rightarrow> nat \<times> 'b world" where
  "new_array xs w = (length (arrays w), w\<lparr>arrays := arrays w @ [xs]\<rparr>)"

definition map_array :: "(float \<Rightarrow> float) \<Rightarrow> nat \<Rightarrow> 'b world \<Rightarrow> nat \<times> 'b world" where
  "map_array f a w = new_array (map f (array_at w a)) w"

definition zip_array ::
  "(float \<Rightarrow> float \<Rightarrow> float) \<Rightarrow> nat \<Rightarrow> nat \<Rightarrow> 'b world \<Rightarrow> (error + nat) \<times> 'b world" where
  "zip_array f a b w =
     (case broadcast2 f (array_at w a) (array_at w b) of
        Inl e \<Rightarrow> (Inl e, w)
      | Inr xs \<Rightarrow> (case new_array xs w of (c, w') \<Rightarrow> (Inr c, w')))"

definition reweighted_mean_w ::
  "nat \<Rightarrow> nat \<Rightarrow> float \<Rightarrow> nat \<Rightarrow> float \<Rightarrow> float \<Rightarrow> float \<Rightarrow> 'b world
     \<Rightarrow> (error + float) \<times> 'b world" where
  "reweighted_mean_w values errors n_factor inv_var alpha beta mean w =
     (case map_array (\<lambda>v. fsub v mean) values w of (t1, w1) \<Rightarrow>
      case map_array (fmul n_factor) t1 w1 of (t2, w2) \<Rightarrow>
      case zip_array fdiv t2 errors w2 of
        (Inl e, w3) \<Rightarrow> (Inl e, w3)
      | (Inr t3, w3) \<Rightarrow>
          (case map_array np_fabs t3 w3 of (chi, w4) \<Rightarrow>
           case map_array (\<lambda>c. fdiv c alpha) chi w4 of (t5, w5) \<Rightarrow>
           case map_array (\<lambda>c. fpow c beta) t5 w5 of (t6, w6) \<Rightarrow>
           case map_array (fadd (Fin 1)) t6 w6 of (t7, w7) \<Rightarrow>
           case zip_array fdiv inv_var t7 w7 of
             (Inl e, w8) \<Rightarrow> (Inl e, w8)
           | (Inr wgt, w8) \<Rightarrow> (np_average (array_at w8 values) (array_at w8 wgt), w8)))"

fun stetson_iter_w ::
  "nat \<Rightarrow> nat \<Rightarrow> nat \<Rightarrow> float \<Rightarrow> nat \<Rightarrow> float \<Rightarrow> float \<Rightarrow> float \<Rightarrow> float \<Rightarrow> 'b world
     \<Rightarrow> (error + float \<times> nat) \<times> 'b world" where
  "stetson_iter_w 0 values errors n_factor inv_var alpha beta tol mean w = (Inr (mean, 0), w)"
| "stetson_iter_w (Suc k) values errors n_factor inv_var alpha beta tol mean w =
     (case reweighted_mean_w values errors n_factor inv_var alpha beta mean w of
        (Inl e, w') \<Rightarrow> (Inl e, w')
      | (Inr tmp_mean, w') \<Rightarrow>
          let diff = np_fabs (fsub tmp_mean mean) in
          if converged diff tmp_mean tol then (Inr (tmp_mean, 1), w')
          else (case stetson_iter_w k values errors n_factor inv_var alpha beta tol tmp_mean w' of
                  (Inl e, w'') \<Rightarrow> (Inl e, w'')
                | (Inr (m, passes), w'') \<Rightarrow> (Inr (m, Suc passes), w'')))"

definition stetson_mean_w ::
  "nat \<Rightarrow> nat \<Rightarrow> float option \<Rightarrow> float \<Rightarrow> float \<Rightarrow> int \<Rightarrow> float \<Rightarrow> 'b world
     \<Rightarrow> (error + float) \<times> 'b world" where
  "stetson_mean_w values errors mean alpha beta n_iter tol w =
     (let n_points = int (length (array_at w values)) in
      case py_truediv n_points (n_points - 1) of
        Inl e \<Rightarrow> (Inl e, w)
      | Inr q \<Rightarrow>
          (case map_array (\<lambda>e. fmul e e) errors w of (sq, w1) \<Rightarrow>
           case map_array (fdiv (Fin 1)) sq w1 of (inv_var, w2) \<Rightarrow>
           case (case mean of
                   None \<Rightarrow> np_average (array_at w2 values) (array_at w2 inv_var)
                 | Some m \<Rightarrow> Inr m) of
             Inl e \<Rightarrow> (Inl e, w2)
           | Inr mean0 \<Rightarrow>
               (case stetson_iter_w (nat n_iter) values errors (np_sqrt q) inv_var alpha beta tol
                       mean0 w2 of
                  (r, w3) \<Rightarrow> (map_sum id fst r, w3))))"

definition stetson_J_w :: "nat \<Rightarrow> nat \<Rightarrow> 'b world \<Rightarrow> (error + float) \<times> 'b world" where
  "stetson_J_w fluxes errors w =
     (let n_points = int (length (array_at w fluxes)) in
      case stetson_mean_w fluxes errors None (Fin 2) (Fin 2) 20 (Fin (1 / 10 ^ 6)) w of
        (Inl e, w1) \<Rightarrow> (Inl e, w1)
      | (Inr flux_mean, w1) \<Rightarrow>
          (case py_truediv n_points (n_points - 1) of
             Inl e \<Rightarrow> (Inl e, w1)
           | Inr q \<Rightarrow>
               (case map_array (\<lambda>f. fsub f flux_mean) fluxes w1 of (t1, w2) \<Rightarrow>
                case map_array (fmul (np_sqrt q)) t1 w2 of (t2, w3) \<Rightarrow>
                case zip_array fdiv t2 errors w3 of
                  (Inl e, w4) \<Rightarrow> (Inl e, w4)
                | (Inr delta_val, w4) \<Rightarrow>
                    (case map_array (\<lambda>d. fmul d d) delta_val w4 of (sq, w5) \<Rightarrow>
                     case map_array (\<lambda>d. fsub d (Fin 1)) sq w5 of (p_k, w6) \<Rightarrow>
                     case map_array np_sign p_k w6 of (sg, w7) \<Rightarrow>
                     case map_array np_fabs p_k w7 of (ab, w8) \<Rightarrow>
                     case map_array np_sqrt ab w8 of (rt, w9) \<Rightarrow>
                     case zip_array fmul sg rt w9 of
                       (Inl e, w10) \<Rightarrow> (Inl e, w10)
                     | (Inr terms, w10) \<Rightarrow> (Inr (np_mean (array_at w10 terms)), w10)))))"

definition extends :: "'b world \<Rightarrow> 'b world \<Rightarrow> bool" where
  "extends w w' = (this w' = this w \<and> take (length (arrays w)) (arrays w') = arrays w
                   \<and> length (arrays w) \<le> length (arrays w'))"

definition example_world :: "string world" where
  "example_world = \<lparr>arrays = [[Fin 10, Fin 10], [Fin 1, Fin 1]], this = example_series\<rparr>"

definition lone_observation_series :: "string timeseries" where
  "lone_observation_series =
     \<lparr>data = \<lparr>index = [''g'', ''g'', ''r''],
              columns = [''midPointTai'' \<mapsto> [Fin 1, Fin 2, Fin 3],
                         ''psFlux'' \<mapsto> [Fin 10, Fin 10, Fin 12],
                         ''psFluxErr'' \<mapsto> [Fin 1, Fin 1, Fin 1]]\<rparr>,
      meta = [''id'' \<mapsto> None],
      colmap = [''time'' \<mapsto> Some ''midPointTai'', ''flux'' \<mapsto> Some ''psFlux'',
                ''flux_err'' \<mapsto> Some ''psFluxErr'']\<rparr>"

definition two_band_series :: "string timeseries" where
  "two_band_series =
     \<lparr>data = \<lparr>index = [''r'', ''g'', ''r'', ''g''],
              columns = [''midPointTai'' \<mapsto> [Fin 1, Fin 2, Fin 3, Fin 4],
                         ''psFlux'' \<mapsto> [Fin 5, Fin 10, Fin 5, Fin 10],
                         ''psFluxErr'' \<mapsto> [Fin 1, Fin 2, Fin 1, Fin 2]]\<rparr>,
      meta = [''id'' \<mapsto> None],
      colmap = [''time'' \<mapsto> Some ''midPointTai'', ''flux'' \<mapsto> Some ''psFlux'',
                ''flux_err'' \<mapsto> Some ''psFluxErr'']\<rparr>"

section \<open>Inputs with fewer than two observations\<close>

lemma np_average_empty: "np_average [] [] = Inl ZeroDivisionError"
  by (simp add: np_average_def feq_def zero_float_def)

text \<open>
  C1 (as the code has it).  For aligned inputs of fewer than two observations both
  \<^verbatim>\<open>_stetson_mean\<close> (called without a starting mean) and \<^verbatim>\<open>stetson_J\<close> raise Python's
  \<^verbatim>\<open>ZeroDivisionError\<close>: with one observation the integer division \<^verbatim>\<open>n_points / (n_points - 1)\<close>
  divides by zero, with none \<^verbatim>\<open>np.average\<close> finds that the weights sum to zero.
\<close>

theorem small_input_raises_ZeroDivisionError:
  assumes "length values < 2" and "length errors = length values"
  shows "stetson_mean values errors None alpha beta n_iter tol = Inl ZeroDivisionError
       \<and> stetson_J values errors = Inl ZeroDivisionError"
proof -
  consider (zero) "length values = 0" | (one) "length values = 1"
    using assms(1) by linarith
  then have "stetson_mean_passes values errors None alpha' beta' n_iter' tol' = Inl ZeroDivisionError"
    for alpha' beta' n_iter' tol'
  proof cases
    case zero
    with assms(2) have "values = []" "errors = []" by simp_all
    then show ?thesis
      by (simp add: stetson_mean_passes_def py_truediv_def bindE_def np_average_empty)
  next
    case one
    then show ?thesis
      by (simp add: stetson_mean_passes_def py_truediv_def bindE_def)
  qed
  then have "stetson_mean values errors None alpha' beta' n_iter' tol' = Inl ZeroDivisionError"
    for alpha' beta' n_iter' tol'
    by (simp add: stetson_mean_def)
  then show ?thesis
    by (simp add: stetson_J_def bindE_def)
qed

theorem small_input_raises_ZeroDivisionError_witness:
  "stetson_mean [] [] None (Fin 2) (Fin 2) 20 (Fin (1 / 10 ^ 6)) = Inl ZeroDivisionError
   \<and> stetson_J [] [] = Inl ZeroDivisionError"
  using small_input_raises_ZeroDivisionError [of "[]" "[]" "Fin 2" "Fin 2" 20 "Fin (1 / 10 ^ 6)"]
  by simp

theorem invalid_input_size_counterexample:
  "stetson_J [Fin 5] [Fin 1] = Inl ZeroDivisionError
   \<and> stetson_mean [Fin 5] [Fin 1] None (Fin 2) (Fin 2) 20 (Fin (1 / 10 ^ 6)) = Inl ZeroDivisionError
   \<and> exc_name ZeroDivisionError \<noteq> ''InvalidInputSize''"
  by (simp add: stetson_J_def stetson_mean_def stetson_mean_passes_def py_truediv_def bindE_def)

section \<open>The array expressions, one observation at a time\<close>

lemma broadcast2_same_length:
  "length xs = length ys \<Longrightarrow> broadcast2 f xs ys = Inr (map2 f xs ys)"
  by (simp add: broadcast2_def)

lemma reweighted_mean_pointwise:
  assumes "length errors = length values"
  shows "reweighted_mean values errors n_factor (map (\<lambda>e. fdiv (Fin 1) (fmul e e)) errors)
           alpha beta mean
         = np_average values (map (point_weight n_factor alpha beta mean) (zip values errors))"
proof -
  have "map2 fdiv (map (\<lambda>e. fdiv (Fin 1) (fmul e e)) errors)
          (map (\<lambda>c. fadd (Fin 1) (fpow (fdiv c alpha) beta))
             (map np_fabs (map2 fdiv (map (\<lambda>v. fmul n_factor (fsub v mean)) values) errors)))
        = map (point_weight n_factor alpha beta mean) (zip values errors)"
    using assms
    by (induction errors "values" rule: list_induct2) (simp_all add: point_weight_def)
  moreover have "broadcast2 fdiv (map (\<lambda>v. fmul n_factor (fsub v mean)) values) errors
        = Inr (map2 fdiv (map (\<lambda>v. fmul n_factor (fsub v mean)) values) errors)"
    using assms by (simp add: broadcast2_same_length)
  moreover have "broadcast2 fdiv (map (\<lambda>e. fdiv (Fin 1) (fmul e e)) errors)
          (map (\<lambda>c. fadd (Fin 1) (fpow (fdiv c alpha) beta))
             (map np_fabs (map2 fdiv (map (\<lambda>v. fmul n_factor (fsub v mean)) values) errors)))
        = Inr (map2 fdiv (map (\<lambda>e. fdiv (Fin 1) (fmul e e)) errors)
          (map (\<lambda>c. fadd (Fin 1) (fpow (fdiv c alpha) beta))
             (map np_fabs (map2 fdiv (map (\<lambda>v. fmul n_factor (fsub v mean)) values) errors))))"
    using assms by (simp add: broadcast2_same_length)
  ultimately show ?thesis
    by (simp only: reweighted_mean_def bindE_def sum.case Let_def)
qed

lemma np_average_pairs:
  assumes "length errors = length values"
  shows "np_average values (map W (zip values errors))
         = (if feq (sum_list (map W (zip values errors))) (Fin 0) then Inl ZeroDivisionError
            else Inr (fdiv (sum_list (map (\<lambda>z. fmul (fst z) (W z)) (zip values errors)))
                       (sum_list (map W (zip values errors)))))"
proof -
  have "map2 fmul values (map W (zip values errors))
        = map (\<lambda>z. fmul (fst z) (W z)) (zip values errors)"
    using assms by (induction errors "values" rule: list_induct2) simp_all
  then show ?thesis
    using assms by (simp add: np_average_def Let_def)
qed

lemma inv_var_pairs:
  "length errors = length values \<Longrightarrow> map g errors = map (\<lambda>z. g (snd z)) (zip values errors)"
  by (induction errors "values" rule: list_induct2) simp_all

lemma J_terms_pointwise:
  assumes "length errors = length values"
  shows "map T (map D (map2 fdiv (map h values) errors))
         = map (\<lambda>z. T (D (fdiv (h (fst z)) (snd z)))) (zip values errors)"
  using assms by (induction errors "values" rule: list_induct2) simp_all

lemma stetson_J_pointwise:
  assumes len: "length errors = length fluxes"
  shows "stetson_J fluxes errors
         = bindE (stetson_mean fluxes errors None (Fin 2) (Fin 2) 20 (Fin (1 / 10 ^ 6)))
             (\<lambda>flux_mean.
               bindE (py_truediv (int (length fluxes)) (int (length fluxes) - 1)) (\<lambda>q.
                 Inr (np_mean (map (point_J (np_sqrt q) flux_mean) (zip fluxes errors)))))"
proof -
  have "map (\<lambda>p. fmul (np_sign p) (np_sqrt (np_fabs p)))
          (map (\<lambda>d. fsub (fmul d d) (Fin 1))
             (map2 fdiv (map (\<lambda>f. fmul nf (fsub f fm)) fluxes) errors))
        = map (point_J nf fm) (zip fluxes errors)" for nf fm
    unfolding J_terms_pointwise [OF len]
    by (simp add: point_J_def case_prod_beta Let_def)
  moreover have "broadcast2 fdiv (map (\<lambda>f. fmul nf (fsub f fm)) fluxes) errors
      = Inr (map2 fdiv (map (\<lambda>f. fmul nf (fsub f fm)) fluxes) errors)" for nf fm
    using len by (simp add: broadcast2_same_length)
  ultimately show ?thesis
    by (simp only: stetson_J_def Let_def bindE_def sum.case)
qed

lemma n_factor_finite:
  assumes "2 \<le> n"
  shows "py_truediv (int n) (int n - 1) = Inr (Fin (of_int (int n) / of_int (int n - 1)))"
    and "np_sqrt (Fin (of_int (int n) / of_int (int n - 1)))
         = Fin (sqrt (of_int (int n) / of_int (int n - 1)))"
proof -
  show "py_truediv (int n) (int n - 1) = Inr (Fin (of_int (int n) / of_int (int n - 1)))"
    using assms by (simp add: py_truediv_def)
  have "0 \<le> (of_int (int n) :: real) / of_int (int n - 1)" using assms by simp
  then show "np_sqrt (Fin (of_int (int n) / of_int (int n - 1)))
      = Fin (sqrt (of_int (int n) / of_int (int n - 1)))"
    by (simp del: of_int_diff)
qed

section \<open>Identical values\<close>

lemma fdiv_one: "fdiv x (Fin 1) = x"
  by (cases x) (simp_all add: inf_of_sign_def)

lemma zero_over_positive: "flt (Fin 0) e \<Longrightarrow> fdiv (Fin 0) e = Fin 0"
  by (cases e) simp_all

lemma point_weight_at_mean:
  assumes "flt (Fin 0) e"
  shows "point_weight (Fin f) (Fin 2) (Fin 2) (Fin c) (Fin c, e) = fdiv (Fin 1) (fmul e e)"
  using assms by (simp add: point_weight_def fsub_def zero_over_positive fpow_def fdiv_one)

lemma reweighted_mean_at_mean:
  assumes e: "flt (Fin 0) e"
    and iv: "inv_var = map (\<lambda>e. fdiv (Fin 1) (fmul e e)) (replicate n e)"
  shows "reweighted_mean (replicate n (Fin c)) (replicate n e) (Fin f) inv_var (Fin 2) (Fin 2)
           (Fin c)
         = np_average (replicate n (Fin c)) (replicate n (fdiv (Fin 1) (fmul e e)))"
proof -
  have "reweighted_mean (replicate n (Fin c)) (replicate n e) (Fin f) inv_var (Fin 2) (Fin 2)
           (Fin c)
        = np_average (replicate n (Fin c))
            (map (point_weight (Fin f) (Fin 2) (Fin 2) (Fin c))
               (zip (replicate n (Fin c)) (replicate n e)))"
    unfolding iv by (rule reweighted_mean_pointwise) simp
  also have "\<dots> = np_average (replicate n (Fin c)) (replicate n (fdiv (Fin 1) (fmul e e)))"
    by (simp add: zip_replicate point_weight_at_mean [OF e])
  finally show ?thesis .
qed

lemma stetson_iter_at_mean:
  assumes e: "flt (Fin 0) e"
    and iv: "inv_var = map (\<lambda>e. fdiv (Fin 1) (fmul e e)) (replicate n e)"
    and avg: "np_average (replicate n (Fin c)) (replicate n (fdiv (Fin 1) (fmul e e)))
              = Inr (Fin c)"
  shows "\<exists>j. stetson_iter k (replicate n (Fin c)) (replicate n e) (Fin f) inv_var (Fin 2) (Fin 2)
           tol (Fin c) = Inr (Fin c, j)"
proof (induction k)
  case 0
  show ?case by simp
next
  case (Suc k)
  then show ?case
    by (auto simp: reweighted_mean_at_mean [OF e iv] avg bindE_def)
qed

lemma stetson_mean_fixed_point:
  assumes n: "2 \<le> n" and e: "flt (Fin 0) e"
    and avg: "np_average (replicate n (Fin c)) (replicate n (fdiv (Fin 1) (fmul e e)))
              = Inr (Fin c)"
  shows "stetson_mean (replicate n (Fin c)) (replicate n e) None (Fin 2) (Fin 2) n_iter tol
         = Inr (Fin c)"
proof -
  have m0: "np_average (replicate n (Fin c))
      (map (\<lambda>e. fdiv (Fin 1) (fmul e e)) (replicate n e)) = Inr (Fin c)"
    using avg by simp
  obtain j where "stetson_iter (nat n_iter) (replicate n (Fin c)) (replicate n e)
      (Fin (sqrt (of_int (int n) / of_int (int n - 1))))
      (map (\<lambda>e. fdiv (Fin 1) (fmul e e)) (replicate n e)) (Fin 2) (Fin 2) tol (Fin c)
      = Inr (Fin c, j)"
    using stetson_iter_at_mean [OF e refl avg] by blast
  then have "stetson_mean_passes (replicate n (Fin c)) (replicate n e) None (Fin 2) (Fin 2)
      n_iter tol = Inr (Fin c, j)"
    unfolding stetson_mean_passes_def Let_def length_replicate n_factor_finite [OF n]
      bindE_def sum.case option.case m0 by simp
  then show ?thesis by (simp add: stetson_mean_def)
qed

lemma sum_list_replicate_Fin: "sum_list (replicate n (Fin w)) = Fin (real n * w)"
  by (induction n) (simp_all add: zero_float_def plus_float_def algebra_simps)

lemma point_J_at_mean:
  assumes "flt (Fin 0) e"
  shows "point_J (Fin f) (Fin c) (Fin c, e) = Fin (- 1)"
  using assms by (simp add: point_J_def Let_def fsub_def zero_over_positive)

lemma stetson_J_fixed_point:
  assumes n: "2 \<le> n" and e: "flt (Fin 0) e"
    and avg: "np_average (replicate n (Fin c)) (replicate n (fdiv (Fin 1) (fmul e e)))
              = Inr (Fin c)"
  shows "stetson_J (replicate n (Fin c)) (replicate n e) = Inr (Fin (- 1))"
proof -
  have mean: "stetson_mean (replicate n (Fin c)) (replicate n e) None (Fin 2) (Fin 2) 20
           (Fin (1 / 10 ^ 6)) = Inr (Fin c)"
    by (rule stetson_mean_fixed_point [OF n e avg])
  have n0: "real n \<noteq> 0" using n by simp
  have len: "length (replicate n e) = length (replicate n (Fin c))" by simp
  have "stetson_J (replicate n (Fin c)) (replicate n e)
        = Inr (np_mean (replicate n (Fin (- 1))))"
    unfolding stetson_J_pointwise [OF len] mean bindE_def sum.case length_replicate
      n_factor_finite [OF n]
    by (simp add: zip_replicate point_J_at_mean [OF e])
  then show ?thesis
    using n0 by (simp add: np_mean_def sum_list_replicate_Fin)
qed

lemma average_of_two: "np_average [Fin c, Fin c] [Fin 1, Fin 1] = Inr (Fin c)"
  by (simp add: np_average_def plus_float_def zero_float_def feq_def)

lemma stetson_J_two_identical:
  "stetson_J [Fin c, Fin c] [Fin 1, Fin 1] = Inr (Fin (- 1))"
  using stetson_J_fixed_point [of "Suc (Suc 0)" "Fin 1" c] average_of_two [of c]
  by simp

text \<open>
  C4 (as the code has it).  Take \<open>n \<ge> 2\<close> identical finite values \<open>c\<close> with equal
  strictly positive errors \<open>e\<close>.  If the inverse-variance weighted average that starts the
  iteration, \<^verbatim>\<open>np.average(values, weights=1 / errors ** 2)\<close>, is exactly \<open>c\<close>, then every
  reweighting pass reproduces it: \<^verbatim>\<open>_stetson_mean\<close> returns exactly \<open>c\<close>, for every
  \<^verbatim>\<open>n_iter\<close> and \<^verbatim>\<open>tol\<close>, and \<^verbatim>\<open>stetson_J\<close> returns exactly \<open>-1\<close>.  This is so for
  fluxes \<^verbatim>\<open>[10,10,10,10]\<close> with errors \<^verbatim>\<open>[1,1,1,1]\<close>.  The condition cannot be dropped: with
  infinite errors the weights are zero and \<^verbatim>\<open>np.average\<close> raises.
\<close>

theorem identical_values_mean_and_J:
  assumes n: "2 \<le> n" and e: "flt (Fin 0) e"
    and avg: "np_average (replicate n (Fin c)) (replicate n (fdiv (Fin 1) (fmul e e)))
              = Inr (Fin c)"
  shows "stetson_mean (replicate n (Fin c)) (replicate n e) None (Fin 2) (Fin 2) n_iter tol
           = Inr (Fin c)
       \<and> stetson_J (replicate n (Fin c)) (replicate n e) = Inr (Fin (- 1))"
  using stetson_mean_fixed_point [OF n e avg] stetson_J_fixed_point [OF n e avg] by simp

theorem identical_values_mean_and_J_witness:
  "stetson_mean [Fin 10, Fin 10, Fin 10, Fin 10] [Fin 1, Fin 1, Fin 1, Fin 1] None (Fin 2) (Fin 2)
     20 (Fin (1 / 10 ^ 6)) = Inr (Fin 10)
   \<and> stetson_J [Fin 10, Fin 10, Fin 10, Fin 10] [Fin 1, Fin 1, Fin 1, Fin 1] = Inr (Fin (- 1))"
proof -
  have "np_average (replicate 4 (Fin 10)) (replicate 4 (fdiv (Fin 1) (fmul (Fin 1) (Fin 1))))
        = Inr (Fin 10)"
    by (simp add: np_average_def plus_float_def zero_float_def feq_def eval_nat_numeral)
  then show ?thesis
    using identical_values_mean_and_J [of 4 "Fin 1" 10 20 "Fin (1 / 10 ^ 6)"]
    by (simp add: eval_nat_numeral)
qed

theorem identical_values_counterexample:
  "flt (Fin 0) PInf
   \<and> stetson_mean [Fin 10, Fin 10] [PInf, PInf] None (Fin 2) (Fin 2) 20 (Fin (1 / 10 ^ 6))
       = Inl ZeroDivisionError
   \<and> stetson_J [Fin 10, Fin 10] [PInf, PInf] = Inl ZeroDivisionError"
  by (simp add: stetson_J_def stetson_mean_def stetson_mean_passes_def py_truediv_def bindE_def
      np_average_def plus_float_def zero_float_def feq_def inf_of_sign_def)

section \<open>The number of passes\<close>








section \<open>The convergence test\<close>

text \<open>
  One reweighting pass on identical finite values, whatever the mean before the pass:
  every observation gets the same positive weight, and the new mean is the common value.
  This is a fact of exact arithmetic (in \<^verbatim>\<open>float64\<close> the weighted sum may round); it is used
  below on two values that are a power of two, where \<^verbatim>\<open>float64\<close> gives the same.
\<close>

lemma fpow_nonneg:
  assumes "0 \<le> x" and "0 \<le> b"
  shows "\<exists>p\<ge>0. fpow (Fin x) (Fin b) = Fin p"
  using assms by (auto simp: fpow_def)

lemma point_weight_positive:
  assumes "e \<noteq> 0" and "0 < a" and "0 \<le> b"
  shows "\<exists>w>0. point_weight (Fin nf) (Fin a) (Fin b) (Fin m) (Fin v, Fin e) = Fin w"
proof -
  let ?chi = "\<bar>nf * (v - m) / e\<bar>"
  have chi: "np_fabs (fdiv (fmul (Fin nf) (fsub (Fin v) (Fin m))) (Fin e)) = Fin ?chi"
    using assms(1) by (simp add: fsub_def)
  have "0 \<le> ?chi / a" using assms(2) by simp
  then obtain p where p: "0 \<le> p" "fpow (Fin (?chi / a)) (Fin b) = Fin p"
    using fpow_nonneg assms(3) by blast
  have "point_weight (Fin nf) (Fin a) (Fin b) (Fin m) (Fin v, Fin e)
        = Fin (1 / (e * e) / (1 + p))"
    using assms p by (simp add: point_weight_def chi)
  moreover have "0 < e * e"
    using assms(1) not_real_square_gt_zero by blast
  then have "1 / (e * e) / (1 + p) > 0"
    using p(1) by simp
  ultimately show ?thesis by blast
qed

lemma np_average_replicate:
  assumes "0 < n" and "0 < w"
  shows "np_average (replicate n (Fin c)) (replicate n (Fin w)) = Inr (Fin c)"
  using assms
  by (simp add: np_average_def zip_replicate sum_list_replicate_Fin feq_def)

lemma reweighted_mean_identical:
  assumes n: "0 < n" and e: "e \<noteq> 0" and a: "0 < a" and b: "0 \<le> b"
    and iv: "inv_var = map (\<lambda>e. fdiv (Fin 1) (fmul e e)) (replicate n (Fin e))"
  shows "reweighted_mean (replicate n (Fin c)) (replicate n (Fin e)) (Fin nf) inv_var
           (Fin a) (Fin b) (Fin m) = Inr (Fin c)"
proof -
  obtain w where w: "0 < w" "point_weight (Fin nf) (Fin a) (Fin b) (Fin m) (Fin c, Fin e) = Fin w"
    using point_weight_positive [OF e a b] by blast
  have "reweighted_mean (replicate n (Fin c)) (replicate n (Fin e)) (Fin nf) inv_var
           (Fin a) (Fin b) (Fin m)
        = np_average (replicate n (Fin c))
            (map (point_weight (Fin nf) (Fin a) (Fin b) (Fin m))
               (zip (replicate n (Fin c)) (replicate n (Fin e))))"
    unfolding iv by (rule reweighted_mean_pointwise) simp
  also have "\<dots> = np_average (replicate n (Fin c)) (replicate n (Fin w))"
    using w(2) by (simp add: zip_replicate)
  finally show ?thesis using np_average_replicate [OF n w(1)] by simp
qed

lemma zero_change_of_zero_mean: "\<not> converged (Fin 0) (Fin 0) tol"
  by (cases tol) (simp_all add: converged_def inf_of_sign_def)

lemma abs_over_negative:
  fixes m t x :: real
  shows "m < 0 \<Longrightarrow> \<bar>x\<bar> < t \<Longrightarrow> \<bar>x\<bar> / m < t"
  using divide_nonneg_neg [of "\<bar>x\<bar>" m] by linarith

lemma converged_negative_mean:
  "flt mean (Fin 0) \<Longrightarrow> converged (np_fabs x) mean tol = flt (np_fabs x) tol"
  by (cases x; cases tol; cases mean)
    (auto simp: converged_def inf_of_sign_def abs_over_negative)

lemma stetson_iter_zero_mean:
  assumes iv: "inv_var = map (\<lambda>e. fdiv (Fin 1) (fmul e e)) (replicate n (Fin 1))"
    and avg: "np_average (replicate n (Fin 0)) (replicate n (Fin 1)) = Inr (Fin 0)"
  shows "stetson_iter k (replicate n (Fin 0)) (replicate n (Fin 1)) (Fin f) inv_var (Fin 2) (Fin 2)
           tol (Fin 0) = Inr (Fin 0, k)"
proof (induction k)
  case 0
  show ?case by simp
next
  case (Suc k)
  have e: "flt (Fin 0) (Fin 1)" by simp
  have "\<not> converged (np_fabs (fsub (Fin 0) (Fin 0))) (Fin 0) tol"
    by (simp add: fsub_def zero_change_of_zero_mean)
  then show ?case
    using Suc by (simp add: reweighted_mean_at_mean [OF e iv] avg bindE_def)
qed

text \<open>
  C10 (as the code has it).  A reweighting pass whose new mean is strictly negative ends
  the loop exactly when the absolute change satisfies \<^verbatim>\<open>diff < tol\<close>: the quotient
  \<^verbatim>\<open>diff / mean\<close> is not positive, so the relative condition \<^verbatim>\<open>diff / mean < tol\<close> puts no
  further constraint.  It is not only for a positive mean that the relative condition
  matters: on values \<^verbatim>\<open>[0, 0]\<close> the mean is 0, the change is 0 at every pass, the quotient
  is NaN, and all 20 passes are made although \<^verbatim>\<open>diff < tol\<close>.
\<close>

theorem negative_mean_pass_stops_on_absolute_change:
  assumes "reweighted_mean values errors n_factor inv_var alpha beta mean = Inr tmp_mean"
    and "flt tmp_mean (Fin 0)"
  shows "stetson_iter (Suc k) values errors n_factor inv_var alpha beta tol mean
         = (if flt (np_fabs (fsub tmp_mean mean)) tol then Inr (tmp_mean, 1)
            else bindE (stetson_iter k values errors n_factor inv_var alpha beta tol tmp_mean)
                   (\<lambda>(m, passes). Inr (m, Suc passes)))"
  using assms by (simp add: bindE_def converged_negative_mean)

theorem negative_mean_pass_stops_on_absolute_change_witness:
  "stetson_iter (Suc 19) [Fin (- (1 / 2 ^ 24)), Fin (- (1 / 2 ^ 24))] [Fin 1, Fin 1] (Fin (sqrt 2))
     [Fin 1, Fin 1] (Fin 2) (Fin 2) (Fin (1 / 10 ^ 6)) (Fin (- (1 / 2 ^ 23)))
   = Inr (Fin (- (1 / 2 ^ 24)), 1)"
proof -
  have "reweighted_mean [Fin (- (1 / 2 ^ 24)), Fin (- (1 / 2 ^ 24))] [Fin 1, Fin 1] (Fin (sqrt 2))
          [Fin 1, Fin 1] (Fin 2) (Fin 2) (Fin (- (1 / 2 ^ 23))) = Inr (Fin (- (1 / 2 ^ 24)))"
    using reweighted_mean_identical
      [of "Suc (Suc 0)" 1 2 2 "[Fin 1, Fin 1]" "- (1 / 2 ^ 24)" "sqrt 2" "- (1 / 2 ^ 23)"]
    by simp
  then show ?thesis
    using negative_mean_pass_stops_on_absolute_change
      [of "[Fin (- (1 / 2 ^ 24)), Fin (- (1 / 2 ^ 24))]" "[Fin 1, Fin 1]" "Fin (sqrt 2)"
          "[Fin 1, Fin 1]" "Fin 2" "Fin 2" "Fin (- (1 / 2 ^ 23))" "Fin (- (1 / 2 ^ 24))" 19
          "Fin (1 / 10 ^ 6)"]
    by (simp add: fsub_def)
qed

theorem zero_mean_blocks_convergence_counterexample:
  "flt (np_fabs (fsub (Fin 0) (Fin 0))) (Fin (1 / 10 ^ 6))
   \<and> stetson_mean_passes [Fin 0, Fin 0] [Fin 1, Fin 1] None (Fin 2) (Fin 2) 20 (Fin (1 / 10 ^ 6))
       = Inr (Fin 0, 20)"
proof -
  have it: "stetson_iter 20 (replicate (Suc (Suc 0)) (Fin 0)) (replicate (Suc (Suc 0)) (Fin 1))
      (Fin (sqrt 2)) (map (\<lambda>e. fdiv (Fin 1) (fmul e e)) (replicate (Suc (Suc 0)) (Fin 1)))
      (Fin 2) (Fin 2) (Fin (1 / 10 ^ 6)) (Fin 0) = Inr (Fin 0, 20)"
    by (rule stetson_iter_zero_mean [OF refl]) (simp add: average_of_two)
  have "stetson_mean_passes [Fin 0, Fin 0] [Fin 1, Fin 1] None (Fin 2) (Fin 2) 20
      (Fin (1 / 10 ^ 6)) = Inr (Fin 0, 20)"
    using it
    by (simp add: stetson_mean_passes_def py_truediv_def bindE_def average_of_two)
  then show ?thesis by (simp add: fsub_def)
qed

section \<open>The sign of the errors\<close>

lemma fmul_fabs_square: "fmul (np_fabs e) (np_fabs e) = fmul e e"
  by (cases e) (simp_all add: inf_of_sign_def)

lemma fabs_fdiv_fabs: "np_fabs (fdiv x (np_fabs e)) = np_fabs (fdiv x e)"
  by (cases x; cases e) (auto simp: inf_of_sign_def)

lemma square_fdiv_fabs:
  "fmul (fdiv x (np_fabs e)) (fdiv x (np_fabs e)) = fmul (fdiv x e) (fdiv x e)"
  by (cases x; cases e) (auto simp: inf_of_sign_def)

lemma point_weight_fabs:
  "point_weight n_factor alpha beta mean (v, np_fabs e) = point_weight n_factor alpha beta mean (v, e)"
  by (simp add: point_weight_def fmul_fabs_square fabs_fdiv_fabs)

lemma zip_map_fabs:
  "map W (zip vs (map np_fabs es)) = map (\<lambda>z. W (fst z, np_fabs (snd z))) (zip vs es)"
  by (simp add: zip_map2 case_prod_beta)

lemma inv_var_fabs:
  "map (\<lambda>e. fdiv (Fin 1) (fmul e e)) (map np_fabs errors) = map (\<lambda>e. fdiv (Fin 1) (fmul e e)) errors"
  by (simp add: fmul_fabs_square)

lemma reweighted_mean_fabs:
  assumes len: "length errors = length values"
    and iv: "inv_var = map (\<lambda>e. fdiv (Fin 1) (fmul e e)) errors"
  shows "reweighted_mean values (map np_fabs errors) n_factor inv_var alpha beta mean
         = reweighted_mean values errors n_factor inv_var alpha beta mean"
proof -
  have len': "length (map np_fabs errors) = length values" using len by simp
  have "reweighted_mean values (map np_fabs errors) n_factor
          (map (\<lambda>e. fdiv (Fin 1) (fmul e e)) (map np_fabs errors)) alpha beta mean
        = reweighted_mean values errors n_factor (map (\<lambda>e. fdiv (Fin 1) (fmul e e)) errors)
            alpha beta mean"
    unfolding reweighted_mean_pointwise [OF len] reweighted_mean_pointwise [OF len'] zip_map_fabs
    by (simp add: point_weight_fabs)
  then show ?thesis unfolding inv_var_fabs iv .
qed

lemma stetson_iter_fabs:
  assumes len: "length errors = length values"
    and iv: "inv_var = map (\<lambda>e. fdiv (Fin 1) (fmul e e)) errors"
  shows "stetson_iter k values (map np_fabs errors) n_factor inv_var alpha beta tol mean
         = stetson_iter k values errors n_factor inv_var alpha beta tol mean"
  by (induction k arbitrary: mean) (simp_all add: reweighted_mean_fabs [OF len iv] cong: if_cong)

lemma stetson_mean_fabs:
  assumes len: "length errors = length values"
  shows "stetson_mean values (map np_fabs errors) mean alpha beta n_iter tol
         = stetson_mean values errors mean alpha beta n_iter tol"
proof -
  have it: "stetson_iter k values (map np_fabs errors) nf (map (\<lambda>e. fdiv (Fin 1) (fmul e e)) errors)
              alpha beta tol
            = stetson_iter k values errors nf (map (\<lambda>e. fdiv (Fin 1) (fmul e e)) errors)
              alpha beta tol" for k nf
    by (rule ext) (rule stetson_iter_fabs [OF len refl])
  have "stetson_mean_passes values (map np_fabs errors) mean alpha beta n_iter tol
        = stetson_mean_passes values errors mean alpha beta n_iter tol"
    unfolding stetson_mean_passes_def Let_def inv_var_fabs it ..
  then show ?thesis by (simp add: stetson_mean_def)
qed

lemma point_J_fabs: "point_J n_factor flux_mean (f, np_fabs e) = point_J n_factor flux_mean (f, e)"
  by (simp add: point_J_def square_fdiv_fabs Let_def)

lemma stetson_J_fabs:
  assumes len: "length errors = length fluxes"
  shows "stetson_J fluxes (map np_fabs errors) = stetson_J fluxes errors"
proof -
  have len': "length (map np_fabs errors) = length fluxes" using len by simp
  show ?thesis
    unfolding stetson_J_pointwise [OF len] stetson_J_pointwise [OF len'] stetson_mean_fabs [OF len]
      zip_map_fabs
    by (simp add: point_J_fabs)
qed

lemma fadd_NaN_right [simp]: "fadd x NaN = NaN"
  by (cases x) simp_all

lemma fmul_NaN_right [simp]: "fmul x NaN = NaN"
  by (cases x) simp_all

lemma fdiv_NaN_right [simp]: "fdiv x NaN = NaN"
  by (cases x) simp_all

lemma fsub_NaN_right [simp]: "fsub x NaN = NaN"
  by (simp add: fsub_def)

lemma is_finite_fadd: "is_finite (fadd x y) \<longleftrightarrow> is_finite x \<and> is_finite y"
  by (cases x; cases y) simp_all

lemma sum_list_NaN: "NaN \<in> set xs \<Longrightarrow> sum_list xs = NaN"
  by (induction xs) (auto simp: plus_float_def)

lemma sum_list_not_finite: "\<exists>x\<in>set xs. \<not> is_finite x \<Longrightarrow> \<not> is_finite (sum_list xs)"
  by (induction xs) (auto simp: plus_float_def is_finite_fadd)

lemma sum_list_Fin_or_PInf:
  "\<forall>x\<in>set xs. x = PInf \<or> is_finite x \<Longrightarrow> sum_list xs = PInf \<or> is_finite (sum_list xs)"
proof (induction xs)
  case Nil
  show ?case by (simp add: zero_float_def)
next
  case (Cons x xs)
  then have "sum_list xs = PInf \<or> is_finite (sum_list xs)" "x = PInf \<or> is_finite x" by simp_all
  then show ?case
    by (cases x; cases "sum_list xs") (simp_all add: plus_float_def)
qed

lemma sum_list_PInf:
  assumes "PInf \<in> set xs" and "\<forall>x\<in>set xs. x = PInf \<or> is_finite x"
  shows "sum_list xs = PInf"
proof -
  have "\<not> is_finite (sum_list xs)"
    using assms(1) by (intro sum_list_not_finite) (rule bexI [of _ PInf], simp_all)
  then show ?thesis using sum_list_Fin_or_PInf [OF assms(2)] by blast
qed

lemma fdiv_not_finite_PInf: "\<not> is_finite x \<Longrightarrow> fdiv x PInf = NaN"
  by (cases x) simp_all

lemma initial_mean_zero_error:
  assumes len: "length errors = length values"
    and fin: "\<forall>v\<in>set values. is_finite v"
    and err: "\<forall>e\<in>set errors. is_finite e"
    and zero: "Fin 0 \<in> set errors"
  shows "np_average values (map (\<lambda>e. fdiv (Fin 1) (fmul e e)) errors) = Inr NaN"
proof -
  let ?W = "\<lambda>z. fdiv (Fin 1) (fmul (snd z) (snd z))"
  let ?zs = "zip values errors"
  have iv: "map (\<lambda>e. fdiv (Fin 1) (fmul e e)) errors = map ?W ?zs"
    by (rule inv_var_pairs [OF len])
  obtain x where x: "(x, Fin 0) \<in> set ?zs"
    using in_set_impl_in_set_zip2 [OF len [symmetric] zero] by blast
  then have "x \<in> set values" by (auto dest: set_zip_leftD)
  then have "is_finite x" using fin by blast
  then obtain v where v: "x = Fin v" by (cases x) simp_all
  have W0: "?W (x, Fin 0) = PInf" by (simp add: inf_of_sign_def)
  have "PInf \<in> set (map ?W ?zs)" using x W0 by force
  moreover have "\<forall>w\<in>set (map ?W ?zs). w = PInf \<or> is_finite w"
  proof
    fix w assume "w \<in> set (map ?W ?zs)"
    then obtain z where z: "z \<in> set ?zs" "w = ?W z" by auto
    then have "snd z \<in> set errors" by (metis in_set_zipE prod.collapse)
    then have "is_finite (snd z)" using err by blast
    then obtain e where "snd z = Fin e" by (cases "snd z") simp_all
    then show "w = PInf \<or> is_finite w" using z(2) by (simp add: inf_of_sign_def)
  qed
  ultimately have scl: "sum_list (map ?W ?zs) = PInf" by (rule sum_list_PInf)
  have "\<not> is_finite (fmul (fst (x, Fin 0)) (?W (x, Fin 0)))"
    unfolding W0 using v by (simp add: inf_of_sign_def)
  then have "\<exists>t\<in>set (map (\<lambda>z. fmul (fst z) (?W z)) ?zs). \<not> is_finite t"
    using x by (intro bexI [of _ "fmul (fst (x, Fin 0)) (?W (x, Fin 0))"]) (simp, force)
  then have "\<not> is_finite (sum_list (map (\<lambda>z. fmul (fst z) (?W z)) ?zs))"
    by (rule sum_list_not_finite)
  then have "fdiv (sum_list (map (\<lambda>z. fmul (fst z) (?W z)) ?zs)) PInf = NaN"
    by (rule fdiv_not_finite_PInf)
  then show ?thesis
    unfolding iv np_average_pairs [OF len] scl by (simp add: feq_def)
qed

lemma point_weight_NaN_mean:
  "b \<noteq> 0 \<Longrightarrow> point_weight n_factor alpha (Fin b) NaN z = NaN"
  by (cases z) (simp add: point_weight_def fpow_def)

lemma reweighted_mean_NaN:
  assumes len: "length errors = length values" and ne: "values \<noteq> []" and b: "b \<noteq> 0"
    and iv: "inv_var = map (\<lambda>e. fdiv (Fin 1) (fmul e e)) errors"
  shows "reweighted_mean values errors n_factor inv_var alpha (Fin b) NaN = Inr NaN"
proof -
  let ?zs = "zip values errors"
  have "?zs \<noteq> []" using len ne by (cases "values"; cases errors) simp_all
  then have "NaN \<in> set (map (point_weight n_factor alpha (Fin b) NaN) ?zs)"
    by (cases ?zs) (simp_all add: point_weight_NaN_mean [OF b])
  then have "sum_list (map (point_weight n_factor alpha (Fin b) NaN) ?zs) = NaN"
    by (rule sum_list_NaN)
  then show ?thesis
    unfolding iv reweighted_mean_pointwise [OF len] np_average_pairs [OF len]
    by (simp add: feq_def)
qed

lemma stetson_iter_NaN:
  assumes len: "length errors = length values" and ne: "values \<noteq> []" and b: "b \<noteq> 0"
    and iv: "inv_var = map (\<lambda>e. fdiv (Fin 1) (fmul e e)) errors"
  shows "stetson_iter k values errors n_factor inv_var alpha (Fin b) tol NaN = Inr (NaN, k)"
  by (induction k)
    (simp_all add: reweighted_mean_NaN [OF len ne b iv] bindE_def converged_def fsub_def)

lemma stetson_mean_zero_error:
  assumes len: "length errors = length values" and n2: "2 \<le> length values"
    and fin: "\<forall>v\<in>set values. is_finite v"
    and err: "\<forall>e\<in>set errors. is_finite e"
    and zero: "Fin 0 \<in> set errors" and b: "b \<noteq> 0"
  shows "stetson_mean values errors None alpha (Fin b) n_iter tol = Inr NaN"
proof -
  have ne: "values \<noteq> []" using n2 by auto
  let ?N = "int (length values)"
  have q: "py_truediv ?N (?N - 1) = Inr (Fin (of_int ?N / of_int (?N - 1)))"
    using n2 by (simp add: py_truediv_def)
  have "stetson_mean_passes values errors None alpha (Fin b) n_iter tol = Inr (NaN, nat n_iter)"
    unfolding stetson_mean_passes_def Let_def q bindE_def sum.case option.case
      initial_mean_zero_error [OF len fin err zero]
    by (rule stetson_iter_NaN [OF len ne b refl])
  then show ?thesis by (simp add: stetson_mean_def)
qed

lemma point_J_NaN_mean: "point_J n_factor NaN z = NaN"
  by (cases z) (simp add: point_J_def Let_def fsub_def)

lemma stetson_J_zero_error:
  assumes len: "length errors = length fluxes" and n2: "2 \<le> length fluxes"
    and fin: "\<forall>v\<in>set fluxes. is_finite v"
    and err: "\<forall>e\<in>set errors. is_finite e"
    and zero: "Fin 0 \<in> set errors"
  shows "stetson_J fluxes errors = Inr NaN"
proof -
  have ne: "fluxes \<noteq> []" using n2 by auto
  let ?N = "int (length fluxes)"
  have q: "py_truediv ?N (?N - 1) = Inr (Fin (of_int ?N / of_int (?N - 1)))"
    using n2 by (simp add: py_truediv_def)
  have mean: "stetson_mean fluxes errors None (Fin 2) (Fin 2) 20 (Fin (1 / 10 ^ 6)) = Inr NaN"
    by (rule stetson_mean_zero_error [OF len n2 fin err zero]) simp
  have "zip fluxes errors \<noteq> []" using len ne by (cases fluxes; cases errors) simp_all
  then have "NaN \<in> set (map (point_J nf NaN) (zip fluxes errors))" for nf
    by (cases "zip fluxes errors") (simp_all add: point_J_NaN_mean)
  then have "np_mean (map (point_J nf NaN) (zip fluxes errors)) = NaN" for nf
    by (simp add: np_mean_def sum_list_NaN)
  then show ?thesis
    unfolding stetson_J_pointwise [OF len] mean bindE_def sum.case q by simp
qed

text \<open>
  C2 (as the code has it).  Neither function checks the errors, and the errors enter
  the computation only through their squares and through absolute values of quotients.
  So on aligned inputs the outcome for errors \<open>e\<close>, the value returned or the exception
  raised, is the outcome for the absolute values \<open>|e|\<close>: a negative error is accepted like
  the positive error of the same size, and no error is rejected for its sign.
\<close>

theorem errors_enter_through_absolute_value:
  assumes "length errors = length values"
  shows "stetson_mean values errors mean alpha beta n_iter tol
           = stetson_mean values (map np_fabs errors) mean alpha beta n_iter tol
       \<and> stetson_J values errors = stetson_J values (map np_fabs errors)"
  using stetson_mean_fabs [OF assms] stetson_J_fabs [OF assms] by simp

theorem errors_enter_through_absolute_value_witness:
  "stetson_mean [Fin 1, Fin 2] [Fin (- 1), Fin (- 3)] None (Fin 2) (Fin 2) 20 (Fin (1 / 10 ^ 6))
     = stetson_mean [Fin 1, Fin 2] [Fin 1, Fin 3] None (Fin 2) (Fin 2) 20 (Fin (1 / 10 ^ 6))
   \<and> stetson_J [Fin 1, Fin 2] [Fin (- 1), Fin (- 3)] = stetson_J [Fin 1, Fin 2] [Fin 1, Fin 3]"
  using errors_enter_through_absolute_value
    [of "[Fin (- 1), Fin (- 3)]" "[Fin 1, Fin 2]" None "Fin 2" "Fin 2" 20 "Fin (1 / 10 ^ 6)"]
  by simp

theorem invalid_uncertainty_counterexample:
  "stetson_mean [Fin 10, Fin 10] [Fin (- 1), Fin (- 1)] None (Fin 2) (Fin 2) 20 (Fin (1 / 10 ^ 6))
     = Inr (Fin 10)
   \<and> stetson_J [Fin 10, Fin 10] [Fin (- 1), Fin (- 1)] = Inr (Fin (- 1))
   \<and> stetson_J [Fin 1, Fin 2] [Fin 0, Fin 1] = Inr NaN"
proof -
  have pos: "stetson_mean [Fin 10, Fin 10] [Fin 1, Fin 1] None (Fin 2) (Fin 2) 20
      (Fin (1 / 10 ^ 6)) = Inr (Fin 10)"
    using stetson_mean_fixed_point [of "Suc (Suc 0)" "Fin 1" 10 20 "Fin (1 / 10 ^ 6)"]
      average_of_two [of 10]
    by simp
  have "stetson_mean [Fin 10, Fin 10] [Fin (- 1), Fin (- 1)] None (Fin 2) (Fin 2) 20
      (Fin (1 / 10 ^ 6)) = Inr (Fin 10)"
    using stetson_mean_fabs [of "[Fin (- 1), Fin (- 1)]" "[Fin 10, Fin 10]" None "Fin 2" "Fin 2" 20
        "Fin (1 / 10 ^ 6)"] pos
    by simp
  moreover have "stetson_J [Fin 10, Fin 10] [Fin (- 1), Fin (- 1)] = Inr (Fin (- 1))"
    using stetson_J_fabs [of "[Fin (- 1), Fin (- 1)]" "[Fin 10, Fin 10]"]
      stetson_J_two_identical [of 10]
    by simp
  moreover have "stetson_J [Fin 1, Fin 2] [Fin 0, Fin 1] = Inr NaN"
    by (rule stetson_J_zero_error) simp_all
  ultimately show ?thesis by simp
qed

section \<open>The band aggregator\<close>

text \<open>
  C3.  On a series whose column mapping names the flux columns \<^verbatim>\<open>flux\<close> and \<^verbatim>\<open>flux_err\<close>
  (the default labels of \<^verbatim>\<open>from_dict\<close>), the accessors \<^verbatim>\<open>flux\<close> and \<^verbatim>\<open>flux_err\<close> read these
  columns through the mapping, while \<^verbatim>\<open>stetson_J_multi\<close> looks for the fixed names
  \<^verbatim>\<open>psFlux\<close> and \<^verbatim>\<open>psFluxErr\<close> and raises \<^verbatim>\<open>KeyError\<close>.
\<close>

theorem stetson_J_multi_ignores_colmap:
  "flux example_series = Inr [Fin 10, Fin 10, Fin 10, Fin 10]
   \<and> flux_err example_series = Inr (Some [Fin 1, Fin 1, Fin 1, Fin 1])
   \<and> stetson_J_multi example_series = Inl KeyError"
  by (simp add: flux_def flux_err_def stetson_J_multi_def np_unique_def band_def
      example_series_def dict_getitem_def df_loc_def df_getitem_def bindE_def)

lemma update_fresh_key:
  "k \<notin> fst ` set al \<Longrightarrow> AList.update k v al = al @ [(k, v)]"
  by (induction al) auto

lemma band_column:
  assumes "b \<in> set (index df)" and "columns df c = Some xs"
  shows "bindE (df_loc df b) (\<lambda>sub. df_getitem sub (Some c)) = Inr (band_rows (index df) b xs)"
  using assms by (simp add: df_loc_def df_getitem_def bindE_def band_rows_def)

lemma stetson_J_bands_step:
  assumes "b \<in> set (index df)"
    and "columns df ''psFlux'' = Some fs" and "columns df ''psFluxErr'' = Some es"
  shows "stetson_J_bands df (b # rest) result
         = bindE (stetson_J (band_rows (index df) b fs) (band_rows (index df) b es))
             (\<lambda>j. stetson_J_bands df rest (AList.update b j result))"
  using assms by (simp add: df_loc_def df_getitem_def bindE_def band_rows_def)

lemma stetson_J_bands_outcome:
  fixes df :: "'b dataframe"
  assumes flux: "columns df ''psFlux'' = Some fs" and ferr: "columns df ''psFluxErr'' = Some es"
  defines "J \<equiv> \<lambda>b. stetson_J (band_rows (index df) b fs) (band_rows (index df) b es)"
  shows "set bs \<subseteq> set (index df) \<Longrightarrow> distinct bs \<Longrightarrow> set bs \<inter> fst ` set result = {} \<Longrightarrow>
         (if \<forall>b\<in>set bs. \<exists>j. J b = Inr j
          then \<exists>r. stetson_J_bands df bs result = Inr (result @ r)
                 \<and> map (\<lambda>(b, j). (b, Inr j)) r = map (\<lambda>b. (b, J b)) bs
          else \<exists>e. stetson_J_bands df bs result = Inl e \<and> (\<exists>b\<in>set bs. J b = Inl e))"
proof (induction bs arbitrary: result)
  case Nil
  show ?case by simp
next
  case (Cons b rest)
  have b: "b \<in> set (index df)" using Cons.prems(1) by simp
  have step: "stetson_J_bands df (b # rest) result
      = bindE (J b) (\<lambda>j. stetson_J_bands df rest (AList.update b j result))"
    unfolding J_def by (rule stetson_J_bands_step [OF b flux ferr])
  show ?case
  proof (cases "J b")
    case (Inl e)
    then have "stetson_J_bands df (b # rest) result = Inl e"
      using step by (simp add: bindE_def)
    moreover have some: "\<not> (\<forall>b'\<in>set (b # rest). \<exists>j. J b' = Inr j)" using Inl by auto
    moreover have "\<exists>b'\<in>set (b # rest). J b' = Inl e" using Inl by simp
    ultimately show ?thesis unfolding if_not_P [OF some] by blast
  next
    case (Inr j)
    have fresh: "b \<notin> fst ` set result" using Cons.prems(3) by auto
    have upd: "AList.update b j result = result @ [(b, j)]"
      using fresh by (rule update_fresh_key)
    have run: "stetson_J_bands df (b # rest) result = stetson_J_bands df rest (result @ [(b, j)])"
      using step Inr upd by (simp add: bindE_def)
    have pre: "set rest \<subseteq> set (index df)" "distinct rest"
      "set rest \<inter> fst ` set (result @ [(b, j)]) = {}"
      using Cons.prems by auto
    note IH = Cons.IH [OF pre]
    show ?thesis
    proof (cases "\<forall>b'\<in>set rest. \<exists>j. J b' = Inr j")
      case True
      obtain r where r: "stetson_J_bands df rest (result @ [(b, j)])
          = Inr ((result @ [(b, j)]) @ r)"
          "map (\<lambda>(b, j). (b, Inr j)) r = map (\<lambda>b. (b, J b)) rest"
        using IH [unfolded if_P [OF True]] by blast
      have "stetson_J_bands df (b # rest) result = Inr (result @ ((b, j) # r))"
        using run r(1) by simp
      moreover have "map (\<lambda>(b, j). (b, Inr j)) ((b, j) # r) = map (\<lambda>b. (b, J b)) (b # rest)"
        using r(2) Inr by simp
      moreover have all: "\<forall>b'\<in>set (b # rest). \<exists>j. J b' = Inr j" using True Inr by simp
      ultimately show ?thesis unfolding if_P [OF all] by blast
    next
      case False
      obtain e where e: "stetson_J_bands df rest (result @ [(b, j)]) = Inl e"
          "\<exists>b'\<in>set rest. J b' = Inl e"
        using IH [unfolded if_not_P [OF False]] by blast
      have "stetson_J_bands df (b # rest) result = Inl e" using run e(1) by simp
      moreover have "\<exists>b'\<in>set (b # rest). J b' = Inl e" using e(2) by auto
      moreover have some: "\<not> (\<forall>b'\<in>set (b # rest). \<exists>j. J b' = Inr j)" using False by auto
      ultimately show ?thesis unfolding if_not_P [OF some] by blast
    qed
  qed
qed

text \<open>
  C7 (as the code has it).  Let the data have the columns \<^verbatim>\<open>psFlux\<close> and \<^verbatim>\<open>psFluxErr\<close>.
  If \<^verbatim>\<open>stetson_J\<close> succeeds on the rows of every band, \<^verbatim>\<open>stetson_J_multi\<close> returns a
  dictionary whose keys, in insertion order, are the distinct band labels in ascending
  order, one entry per band and no other key, each with the Stetson J of its band.  If
  \<^verbatim>\<open>stetson_J\<close> raises on the rows of some band, as it does on a band with a single
  observation, \<^verbatim>\<open>stetson_J_multi\<close> raises the exception of such a band and returns no
  dictionary.
\<close>

theorem stetson_J_multi_keys:
  fixes self :: "'b::linorder timeseries"
  assumes flux: "columns (data self) ''psFlux'' = Some fs"
    and ferr: "columns (data self) ''psFluxErr'' = Some es"
  shows "(if \<forall>b\<in>set (band self).
              \<exists>j. stetson_J (band_rows (band self) b fs) (band_rows (band self) b es) = Inr j
          then \<exists>result. stetson_J_multi self = Inr result
                 \<and> map fst result = sort (remdups (band self))
                 \<and> set (map fst result) = set (band self)
                 \<and> distinct (map fst result) \<and> sorted (map fst result)
                 \<and> map (\<lambda>(b, j). (b, Inr j)) result
                     = map (\<lambda>b. (b, stetson_J (band_rows (band self) b fs)
                                      (band_rows (band self) b es)))
                         (sort (remdups (band self)))
          else \<exists>e. stetson_J_multi self = Inl e
                 \<and> (\<exists>b\<in>set (band self).
                       stetson_J (band_rows (band self) b fs) (band_rows (band self) b es)
                       = Inl e))"
proof -
  let ?J = "\<lambda>b. stetson_J (band_rows (band self) b fs) (band_rows (band self) b es)"
  let ?bs = "sort (remdups (band self))"
  have idx: "index (data self) = band self" by (simp add: band_def)
  have run: "stetson_J_multi self = stetson_J_bands (data self) ?bs []"
    by (simp add: stetson_J_multi_def np_unique_def)
  have out: "if \<forall>b\<in>set ?bs. \<exists>j. ?J b = Inr j
      then \<exists>r. stetson_J_bands (data self) ?bs [] = Inr ([] @ r)
             \<and> map (\<lambda>(b, j). (b, Inr j)) r = map (\<lambda>b. (b, ?J b)) ?bs
      else \<exists>e. stetson_J_bands (data self) ?bs [] = Inl e \<and> (\<exists>b\<in>set ?bs. ?J b = Inl e)"
  proof -
    have "set ?bs \<subseteq> set (index (data self))" "distinct ?bs"
      "set ?bs \<inter> fst ` set ([] :: ('b \<times> float) list) = {}"
      by (simp_all add: idx)
    from stetson_J_bands_outcome [OF flux ferr this] show ?thesis unfolding idx .
  qed
  show ?thesis
  proof (cases "\<forall>b\<in>set (band self). \<exists>j. ?J b = Inr j")
    case True
    then have c: "\<forall>b\<in>set ?bs. \<exists>j. ?J b = Inr j" by simp
    obtain r where r: "stetson_J_bands (data self) ?bs [] = Inr r"
        "map (\<lambda>(b, j). (b, Inr j)) r = map (\<lambda>b. (b, ?J b)) ?bs"
      using out [unfolded if_P [OF c]] by auto
    have "map fst (map (\<lambda>(b, j). (b, Inr j :: error + float)) r) = map fst r"
      by (simp add: case_prod_beta)
    moreover have "map fst (map (\<lambda>b. (b, ?J b)) ?bs) = ?bs" by (simp add: comp_def)
    ultimately have keys: "map fst r = ?bs" using r(2) by simp
    have more: "set (map fst r) = set (band self)" "distinct (map fst r)" "sorted (map fst r)"
      unfolding keys by simp_all
    have "stetson_J_multi self = Inr r" using run r(1) by simp
    with keys more r(2) show ?thesis unfolding if_P [OF True] by blast
  next
    case False
    then have c: "\<not> (\<forall>b\<in>set ?bs. \<exists>j. ?J b = Inr j)" by simp
    obtain e where e: "stetson_J_bands (data self) ?bs [] = Inl e"
        "\<exists>b\<in>set ?bs. ?J b = Inl e"
      using out [unfolded if_not_P [OF c]] by blast
    have "stetson_J_multi self = Inl e" using run e(1) by simp
    moreover have "\<exists>b\<in>set (band self). ?J b = Inl e" using e(2) by simp
    ultimately show ?thesis unfolding if_not_P [OF False] by blast
  qed
qed

theorem stetson_J_multi_keys_witness:
  "stetson_J_multi two_band_series = Inr [(''g'', Fin (- 1)), (''r'', Fin (- 1))]"
proof -
  let ?idx = "[''r'', ''g'', ''r'', ''g'']"
  let ?fs = "[Fin 5, Fin 10, Fin 5, Fin 10]"
  let ?es = "[Fin 1, Fin 2, Fin 1, Fin 2]"
  have idx: "band two_band_series = ?idx"
    and fs: "columns (data two_band_series) ''psFlux'' = Some ?fs"
    and es: "columns (data two_band_series) ''psFluxErr'' = Some ?es"
    by (simp_all add: two_band_series_def band_def)
  have "np_average (replicate (Suc (Suc 0)) (Fin 10))
      (replicate (Suc (Suc 0)) (fdiv (Fin 1) (fmul (Fin 2) (Fin 2)))) = Inr (Fin 10)"
    by (simp add: np_average_def plus_float_def zero_float_def feq_def)
  then have g: "stetson_J [Fin 10, Fin 10] [Fin 2, Fin 2] = Inr (Fin (- 1))"
    using stetson_J_fixed_point [of "Suc (Suc 0)" "Fin 2" 10] by simp
  have r: "stetson_J [Fin 5, Fin 5] [Fin 1, Fin 1] = Inr (Fin (- 1))"
    by (rule stetson_J_two_identical)
  have rows: "band_rows ?idx ''g'' ?fs = [Fin 10, Fin 10]" "band_rows ?idx ''g'' ?es = [Fin 2, Fin 2]"
    "band_rows ?idx ''r'' ?fs = [Fin 5, Fin 5]" "band_rows ?idx ''r'' ?es = [Fin 1, Fin 1]"
    by (simp_all add: band_rows_def)
  have srt: "sort (remdups ?idx) = [''g'', ''r'']" by simp
  have ok: "\<forall>b\<in>set (band two_band_series).
      \<exists>j. stetson_J (band_rows (band two_band_series) b ?fs)
             (band_rows (band two_band_series) b ?es) = Inr j"
    unfolding idx by (simp add: rows g r)
  obtain result where res: "stetson_J_multi two_band_series = Inr result"
    and vals: "map (\<lambda>(b, j). (b, Inr j)) result
        = map (\<lambda>b. (b, stetson_J (band_rows (band two_band_series) b ?fs)
                         (band_rows (band two_band_series) b ?es)))
            (sort (remdups (band two_band_series)))"
    using stetson_J_multi_keys [OF fs es, unfolded if_P [OF ok]] by blast
  have "map (\<lambda>(b, j). (b, Inr j :: error + float)) result
      = [(''g'', Inr (Fin (- 1))), (''r'', Inr (Fin (- 1)))]"
    using vals unfolding idx srt by (simp add: rows g r)
  then have "result = [(''g'', Fin (- 1)), (''r'', Fin (- 1))]"
    by (auto simp: map_eq_Cons_conv)
  with res show ?thesis by simp
qed

theorem lone_observation_counterexample:
  "stetson_J_multi lone_observation_series = Inl ZeroDivisionError"
proof -
  let ?df = "data lone_observation_series"
  let ?idx = "[''g'', ''g'', ''r'']"
  let ?fs = "[Fin 10, Fin 10, Fin 12]"
  let ?es = "[Fin 1, Fin 1, Fin 1]"
  have g: "stetson_J [Fin 10, Fin 10] [Fin 1, Fin 1] = Inr (Fin (- 1))"
    by (rule stetson_J_two_identical)
  have r: "stetson_J [Fin 12] [Fin 1] = Inl ZeroDivisionError"
    by (simp add: stetson_J_def stetson_mean_def stetson_mean_passes_def py_truediv_def bindE_def)
  have unq: "np_unique (band lone_observation_series) = [''g'', ''r'']"
    by (simp add: np_unique_def band_def lone_observation_series_def)
  have idx: "index ?df = ?idx"
    and fs: "columns ?df ''psFlux'' = Some ?fs"
    and es: "columns ?df ''psFluxErr'' = Some ?es"
    by (simp_all add: lone_observation_series_def)
  have rows: "band_rows ?idx ''g'' ?fs = [Fin 10, Fin 10]" "band_rows ?idx ''g'' ?es = [Fin 1, Fin 1]"
    "band_rows ?idx ''r'' ?fs = [Fin 12]" "band_rows ?idx ''r'' ?es = [Fin 1]"
    by (simp_all add: band_rows_def)
  have step: "stetson_J_bands ?df (b # rest) result
      = bindE (stetson_J (band_rows ?idx b ?fs) (band_rows ?idx b ?es))
          (\<lambda>j. stetson_J_bands ?df rest (AList.update b j result))"
    if "b \<in> set ?idx" for b rest result
    using stetson_J_bands_step [OF _ fs es, of b rest result] that unfolding idx by simp
  have "stetson_J_bands ?df [''g'', ''r''] [] = Inl ZeroDivisionError"
    by (simp add: step rows g r bindE_def del: stetson_J_bands.simps(2))
  then show ?thesis
    by (simp add: stetson_J_multi_def unq)
qed

section \<open>What a call leaves behind\<close>

lemma extends_refl: "extends w w"
  by (simp add: extends_def)

lemma extends_trans:
  assumes "extends w w'" and "extends w' w''"
  shows "extends w w''"
proof -
  have l: "length (arrays w) \<le> length (arrays w')" "length (arrays w') \<le> length (arrays w'')"
    and t: "take (length (arrays w)) (arrays w') = arrays w"
      "take (length (arrays w')) (arrays w'') = arrays w'"
    and o: "this w' = this w" "this w'' = this w'"
    using assms by (simp_all add: extends_def)
  have "take (length (arrays w)) (take (length (arrays w')) (arrays w''))
        = take (length (arrays w)) (arrays w'')"
    using l(1) by (simp add: min_def)
  then have "take (length (arrays w)) (arrays w'') = arrays w"
    unfolding t(2) using t(1) by simp
  then show ?thesis using l o by (simp add: extends_def)
qed

lemma extends_array_at:
  assumes "extends w w'" and "a < length (arrays w)"
  shows "array_at w' a = array_at w a"
proof -
  have "take (length (arrays w)) (arrays w') ! a = arrays w' ! a"
    using assms(2) by simp
  then show ?thesis using assms(1) by (simp add: extends_def array_at_def)
qed

lemma extends_valid: "extends w w' \<Longrightarrow> a < length (arrays w) \<Longrightarrow> a < length (arrays w')"
  by (simp add: extends_def)

lemma new_array_spec:
  assumes "new_array xs w = (c, w')"
  shows "extends w w'" and "c < length (arrays w')" and "array_at w' c = xs"
proof -
  have c: "c = length (arrays w)" and w': "w' = w\<lparr>arrays := arrays w @ [xs]\<rparr>"
    using assms by (simp_all add: new_array_def)
  show "extends w w'" unfolding w' by (simp add: extends_def)
  show "c < length (arrays w')" unfolding w' c by simp
  show "array_at w' c = xs" unfolding w' c by (simp add: array_at_def)
qed

lemma map_array_spec:
  assumes "map_array f a w = (c, w')"
  shows "extends w w'" and "c < length (arrays w')" and "array_at w' c = map f (array_at w a)"
  using assms new_array_spec [of "map f (array_at w a)" w c w'] by (simp_all add: map_array_def)

lemma zip_array_Inl:
  assumes "zip_array f a b w = (Inl e, w')"
  shows "w' = w" and "broadcast2 f (array_at w a) (array_at w b) = Inl e"
  using assms by (simp_all add: zip_array_def split: sum.splits prod.splits)

lemma zip_array_Inr:
  assumes "zip_array f a b w = (Inr c, w')"
  shows "extends w w'" and "c < length (arrays w')"
    and "broadcast2 f (array_at w a) (array_at w b) = Inr (array_at w' c)"
proof -
  obtain xs where xs: "broadcast2 f (array_at w a) (array_at w b) = Inr xs"
    using assms by (cases "broadcast2 f (array_at w a) (array_at w b)") (simp_all add: zip_array_def)
  then have n: "new_array xs w = (c, w')"
    using assms by (simp add: zip_array_def split: prod.splits)
  show "extends w w'" "c < length (arrays w')" using new_array_spec [OF n] by simp_all
  show "broadcast2 f (array_at w a) (array_at w b) = Inr (array_at w' c)"
    using new_array_spec(3) [OF n] xs by simp
qed

lemma reweighted_mean_w_spec:
  assumes "V < length (arrays w)" and "E < length (arrays w)" and "IV < length (arrays w)"
  shows "case reweighted_mean_w V E nf IV alpha beta mean w of
           (r, w') \<Rightarrow> extends w w'
             \<and> r = reweighted_mean (array_at w V) (array_at w E) nf (array_at w IV) alpha beta mean"
  using assms
  by (simp add: reweighted_mean_w_def reweighted_mean_def map_array_def new_array_def
      zip_array_def array_at_def extends_def nth_append bindE_def Let_def comp_def
      split: sum.splits prod.splits)

lemma stetson_iter_w_spec:
  assumes "V < length (arrays w)" and "E < length (arrays w)" and "IV < length (arrays w)"
  shows "case stetson_iter_w k V E nf IV alpha beta tol mean w of
           (r, w') \<Rightarrow> extends w w'
             \<and> r = stetson_iter k (array_at w V) (array_at w E) nf (array_at w IV) alpha beta tol mean"
  using assms
proof (induction k arbitrary: mean w)
  case 0
  show ?case by (simp add: extends_refl)
next
  case (Suc k)
  obtain r1 w1 where run1: "reweighted_mean_w V E nf IV alpha beta mean w = (r1, w1)"
    by (cases "reweighted_mean_w V E nf IV alpha beta mean w")
  have ext1: "extends w w1"
    and r1: "reweighted_mean (array_at w V) (array_at w E) nf (array_at w IV) alpha beta mean = r1"
    using reweighted_mean_w_spec [OF Suc.prems, of nf alpha beta mean] run1 by simp_all
  show ?case
  proof (cases r1)
    case (Inl e)
    then show ?thesis using run1 ext1 r1 by (simp add: bindE_def)
  next
    case (Inr tmp_mean)
    show ?thesis
    proof (cases "converged (np_fabs (fsub tmp_mean mean)) tmp_mean tol")
      case True
      then show ?thesis using run1 ext1 r1 Inr by (simp add: bindE_def)
    next
      case False
      obtain r2 w2 where run2: "stetson_iter_w k V E nf IV alpha beta tol tmp_mean w1 = (r2, w2)"
        by (cases "stetson_iter_w k V E nf IV alpha beta tol tmp_mean w1")
      have valid1: "V < length (arrays w1)" "E < length (arrays w1)" "IV < length (arrays w1)"
        using Suc.prems ext1 by (simp_all add: extends_valid)
      have same: "array_at w1 V = array_at w V" "array_at w1 E = array_at w E"
        "array_at w1 IV = array_at w IV"
        using Suc.prems ext1 by (simp_all add: extends_array_at)
      have ext2: "extends w1 w2"
        and r2: "stetson_iter k (array_at w V) (array_at w E) nf (array_at w IV) alpha beta
                   tol tmp_mean = r2"
        using Suc.IH [OF valid1, of tmp_mean] run2 same by simp_all
      have "extends w w2" using ext1 ext2 by (rule extends_trans)
      then show ?thesis
        using run1 run2 r1 r2 Inr False
        by (cases r2) (auto simp: bindE_def)
    qed
  qed
qed

lemma stetson_mean_w_spec:
  assumes "V < length (arrays w)" and "E < length (arrays w)"
  shows "case stetson_mean_w V E mean alpha beta n_iter tol w of
           (r, w') \<Rightarrow> extends w w'
             \<and> r = stetson_mean (array_at w V) (array_at w E) mean alpha beta n_iter tol"
proof (cases "py_truediv (int (length (array_at w V))) (int (length (array_at w V)) - 1)")
  case (Inl e)
  then show ?thesis
    by (simp add: stetson_mean_w_def stetson_mean_def stetson_mean_passes_def bindE_def
        extends_refl)
next
  case (Inr q)
  obtain sq w1 where s1: "map_array (\<lambda>e. fmul e e) E w = (sq, w1)"
    by (cases "map_array (\<lambda>e. fmul e e) E w")
  obtain inv_var w2 where s2: "map_array (fdiv (Fin 1)) sq w1 = (inv_var, w2)"
    by (cases "map_array (fdiv (Fin 1)) sq w1")
  note e1 = map_array_spec [OF s1] and e2 = map_array_spec [OF s2]
  have ext: "extends w w2" using e1(1) e2(1) by (rule extends_trans)
  have iv: "array_at w2 inv_var = map (\<lambda>e. fdiv (Fin 1) (fmul e e)) (array_at w E)"
    using e1(3) e2(3) by simp
  have valid2: "V < length (arrays w2)" "E < length (arrays w2)" "inv_var < length (arrays w2)"
    using assms ext e2(2) by (simp_all add: extends_valid)
  have same: "array_at w2 V = array_at w V" "array_at w2 E = array_at w E"
    using assms ext by (simp_all add: extends_array_at)
  let ?init = "case mean of
      None \<Rightarrow> np_average (array_at w V) (map (\<lambda>e. fdiv (Fin 1) (fmul e e)) (array_at w E))
    | Some m \<Rightarrow> Inr m"
  have init: "(case mean of None \<Rightarrow> np_average (array_at w2 V) (array_at w2 inv_var)
                | Some m \<Rightarrow> Inr m) = ?init"
    by (simp add: same iv cong: option.case_cong)
  show ?thesis
  proof (cases ?init)
    case (Inl e)
    then show ?thesis
      using Inr s1 s2 ext
      by (simp add: stetson_mean_w_def stetson_mean_def stetson_mean_passes_def bindE_def
          init Let_def)
  next
    case mean0: (Inr mean0)
    obtain r3 w3 where s3: "stetson_iter_w (nat n_iter) V E (np_sqrt q) inv_var alpha beta tol
        mean0 w2 = (r3, w3)"
      by (cases "stetson_iter_w (nat n_iter) V E (np_sqrt q) inv_var alpha beta tol mean0 w2")
    have ext3: "extends w2 w3"
      and r3: "stetson_iter (nat n_iter) (array_at w V) (array_at w E) (np_sqrt q)
                 (map (\<lambda>e. fdiv (Fin 1) (fmul e e)) (array_at w E)) alpha beta tol mean0 = r3"
      using stetson_iter_w_spec [OF valid2, of "nat n_iter" "np_sqrt q" alpha beta tol mean0]
        s3 same iv by simp_all
    have "extends w w3" using ext ext3 by (rule extends_trans)
    then show ?thesis
      using Inr s1 s2 s3 mean0 r3
      by (simp add: stetson_mean_w_def stetson_mean_def stetson_mean_passes_def bindE_def
          init Let_def)
  qed
qed

lemma stetson_J_w_spec:
  assumes "F < length (arrays w)" and "E < length (arrays w)"
  shows "case stetson_J_w F E w of
           (r, w') \<Rightarrow> extends w w' \<and> r = stetson_J (array_at w F) (array_at w E)"
proof -
  obtain rm w1 where run1:
    "stetson_mean_w F E None (Fin 2) (Fin 2) 20 (Fin (1 / 10 ^ 6)) w = (rm, w1)"
    by (cases "stetson_mean_w F E None (Fin 2) (Fin 2) 20 (Fin (1 / 10 ^ 6)) w")
  have ext1: "extends w w1"
    and rm: "stetson_mean (array_at w F) (array_at w E) None (Fin 2) (Fin 2) 20 (Fin (1 / 10 ^ 6))
             = rm"
    using stetson_mean_w_spec [OF assms, of None "Fin 2" "Fin 2" 20 "Fin (1 / 10 ^ 6)"] run1
    by simp_all
  have valid1: "F < length (arrays w1)" "E < length (arrays w1)"
    using assms ext1 by (simp_all add: extends_valid)
  have same: "arrays w1 ! F = arrays w ! F" "arrays w1 ! E = arrays w ! E"
    using extends_array_at [OF ext1] assms by (simp_all add: array_at_def)
  have ext1': "this w1 = this w" "take (length (arrays w)) (arrays w1) = arrays w"
    "length (arrays w) \<le> length (arrays w1)"
    using ext1 by (simp_all add: extends_def)
  show ?thesis
  proof (cases rm)
    case (Inl e)
    then show ?thesis
      using run1 ext1 rm by (simp add: stetson_J_w_def stetson_J_def bindE_def)
  next
    case (Inr flux_mean)
    show ?thesis
      unfolding stetson_J_w_def stetson_J_def Let_def run1 rm Inr
      using valid1 same ext1'
      by (simp add: map_array_def new_array_def zip_array_def array_at_def extends_def
          nth_append bindE_def comp_def broadcast2_same_length zip_map_map zip_same_conv_map
          split: sum.splits prod.splits)
  qed
qed

text \<open>
  C9.  A call of \<^verbatim>\<open>stetson_J\<close> or of \<^verbatim>\<open>_stetson_mean\<close> on array references that are valid in
  the store leaves the object \<^verbatim>\<open>self\<close> (its \<^verbatim>\<open>data\<close>, \<^verbatim>\<open>meta\<close> and \<^verbatim>\<open>colmap\<close>) and every
  array that existed before the call unchanged, the argument arrays included, also when
  both arguments are the same array or the call raises.  The value returned is the one
  the pure functions compute from the contents of the two argument arrays alone, so
  nothing is carried from one call to the next.
\<close>

theorem stetson_calls_leave_state_unchanged:
  assumes "fluxes < length (arrays w)" and "errors < length (arrays w)"
  shows "(case stetson_J_w fluxes errors w of
            (r, w') \<Rightarrow> this w' = this w
              \<and> (\<forall>a<length (arrays w). array_at w' a = array_at w a)
              \<and> r = stetson_J (array_at w fluxes) (array_at w errors))
       \<and> (case stetson_mean_w fluxes errors mean alpha beta n_iter tol w of
            (r, w') \<Rightarrow> this w' = this w
              \<and> (\<forall>a<length (arrays w). array_at w' a = array_at w a)
              \<and> r = stetson_mean (array_at w fluxes) (array_at w errors) mean alpha beta n_iter tol)"
proof -
  have frame: "this w' = this w \<and> (\<forall>a<length (arrays w). array_at w' a = array_at w a)"
    if "extends w w'" for w'
    using that extends_array_at [OF that] by (simp add: extends_def)
  show ?thesis
    using stetson_J_w_spec [OF assms]
      stetson_mean_w_spec [OF assms, of mean alpha beta n_iter tol] frame
    by (auto split: prod.splits)
qed

theorem stetson_calls_leave_state_unchanged_witness:
  "case stetson_J_w 0 1 example_world of
     (r, w') \<Rightarrow> this w' = example_series \<and> array_at w' 0 = [Fin 10, Fin 10]
       \<and> array_at w' 1 = [Fin 1, Fin 1] \<and> r = Inr (Fin (- 1))"
proof -
  have J: "stetson_J [Fin 10, Fin 10] [Fin 1, Fin 1] = Inr (Fin (- 1))"
    by (rule stetson_J_two_identical)
  have a: "arrays example_world = [[Fin 10, Fin 10], [Fin 1, Fin 1]]"
    and t: "this example_world = example_series"
    by (simp_all add: example_world_def)
  show ?thesis
    using stetson_calls_leave_state_unchanged [of 0 example_world 1 None "Fin 2" "Fin 2" 20 "Fin 0"]
    by (auto simp: a t J array_at_def split: prod.splits)
qed

end
